theory Spec2Isabelle
  imports Complex_Main "HOL-Library.Sublist" "HOL-Library.Char_ord" "HOL-Library.List_Lexorder"
    "HOL-Library.AList"
begin

section \<open>Python values: strings, exceptions, callables\<close>

text \<open>
  Strings are byte strings (\<open>char list\<close>); they are compared character by character by
  code, shorter prefix first (\<open>HOL-Library.List_Lexorder\<close> over \<open>HOL-Library.Char_ord\<close>),
  which is the order of Python's \<open>str\<close> on the same text.

  An exception carries its class name and what \<open>str(e)\<close> does: it returns a text, or
  the \<open>__str__\<close> of the exception raises in its turn. \<open>PyException\<close> is an instance of
  \<open>Exception\<close>; \<open>PyBaseException\<close> is an instance of \<open>BaseException\<close> that is not
  an \<open>Exception\<close> (\<open>KeyboardInterrupt\<close>, \<open>SystemExit\<close>, \<open>GeneratorExit\<close>), which a
  handler \<open>except Exception\<close> does not catch.
\<close>

datatype py_exc = PyException string str_outcome | PyBaseException string str_outcome
  and str_outcome = Str string | StrRaises py_exc

fun str_value :: "str_outcome \<Rightarrow> py_exc + string" where
  "str_value (Str msg) = Inr msg"
| "str_value (StrRaises e) = Inl e"

fun exc_str :: "py_exc \<Rightarrow> py_exc + string" where
  "exc_str (PyException cls s) = str_value s"
| "exc_str (PyBaseException cls s) = str_value s"

fun is_Exception :: "py_exc \<Rightarrow> bool" where
  "is_Exception (PyException cls s) = True"
| "is_Exception (PyBaseException cls s) = False"

text \<open>
  The values a call returns: \<open>None\<close>, a \<open>bool\<close>, an \<open>int\<close>, a \<open>str\<close>, or a list of
  \<open>str\<close>. Lists with other elements are not among the model's values.
\<close>

datatype pyval = PyNone | PyBool bool | PyInt int | PyStr string | PyStrList "string list"

text \<open>
  What a call \<open>f()\<close> with no arguments does: it changes the namespace of the module under
  test (it deletes names and binds names, in some order), and then returns a value or
  raises. A module attribute is a callable with such a behaviour, or an object of some
  other type (named by its type name) whose call raises \<open>TypeError\<close>. A function that
  needs arguments is a callable whose call with none raises \<open>TypeError\<close>. Calls that
  never return are outside the model, and so are test bodies that start or stop the
  instruments themselves or assign to \<open>sys.modules\<close>.
\<close>

datatype call_outcome = Returns pyval | Raises py_exc

datatype attribute = Callable "ns_op list" call_outcome | NonCallable string
  and ns_op = DelAttr string | SetAttr string attribute

definition quote :: "string \<Rightarrow> string" where
  "quote s = [CHR 0x27] @ s @ [CHR 0x27]"

fun callable :: "attribute \<Rightarrow> bool" where
  "callable (Callable ops c) = True"
| "callable (NonCallable ty) = False"

fun call_no_args :: "attribute \<Rightarrow> ns_op list \<times> call_outcome" where
  "call_no_args (Callable ops c) = (ops, c)"
| "call_no_args (NonCallable ty) =
     ([], Raises (PyException ''TypeError'' (Str (quote ty @ '' object is not callable''))))"

fun apply_op :: "ns_op \<Rightarrow> (string \<times> attribute) list \<Rightarrow> (string \<times> attribute) list" where
  "apply_op (DelAttr name) ns = AList.delete name ns"
| "apply_op (SetAttr name a) ns = AList.update name a ns"

fun apply_ops :: "ns_op list \<Rightarrow> (string \<times> attribute) list \<Rightarrow> (string \<times> attribute) list" where
  "apply_ops [] ns = ns"
| "apply_ops (op # ops) ns = apply_ops ops (apply_op op ns)"

fun join :: "string \<Rightarrow> string list \<Rightarrow> string" where
  "join sep [] = []"
| "join sep [x] = x"
| "join sep (x # y # ys) = x @ sep @ join sep (y # ys)"

text \<open>\<open>str.lower\<close> on ASCII text: the capital letters map to the small ones.\<close>

definition lower_char :: "char \<Rightarrow> char" where
  "lower_char c =
     (case map_of (zip ''ABCDEFGHIJKLMNOPQRSTUVWXYZ'' ''abcdefghijklmnopqrstuvwxyz'') c of
        None \<Rightarrow> c
      | Some d \<Rightarrow> d)"

definition lower :: "string \<Rightarrow> string" where
  "lower s = map lower_char s"

section \<open>Modules and the instrumented process\<close>

text \<open>
  A module object: the file it was created for and its namespace, the items of its
  \<open>__dict__\<close> in definition order. \<open>getattr\<close> looks a name up in the namespace.

  \<open>dir(module)\<close> is the sorted list of the names of the namespace, unless the module
  binds \<open>__dir__\<close>: then \<open>dir\<close> calls that attribute with no arguments, makes a list of
  what it returns (a \<open>str\<close> gives its characters; \<open>None\<close>, a \<open>bool\<close> and an \<open>int\<close>
  are not iterable) and sorts it. The call may change the namespace, so \<open>dir_module\<close>
  returns the module as well.
\<close>

record py_module =
  mod_file :: string
  namespace :: "(string \<times> attribute) list"

definition changed :: "ns_op list \<Rightarrow> py_module \<Rightarrow> py_module" where
  "changed ops m = m\<lparr>namespace := apply_ops ops (namespace m)\<rparr>"

definition not_iterable :: "string \<Rightarrow> py_exc" where
  "not_iterable ty = PyException ''TypeError'' (Str (quote ty @ '' object is not iterable''))"

fun names_of :: "pyval \<Rightarrow> py_exc + string list" where
  "names_of (PyStrList names) = Inr names"
| "names_of (PyStr s) = Inr (map (\<lambda>c. [c]) s)"
| "names_of PyNone = Inl (not_iterable ''NoneType'')"
| "names_of (PyBool b) = Inl (not_iterable ''bool'')"
| "names_of (PyInt i) = Inl (not_iterable ''int'')"

definition dir_module :: "py_module \<Rightarrow> (py_exc + string list) \<times> py_module" where
  "dir_module m =
     (case map_of (namespace m) ''__dir__'' of
        None \<Rightarrow> (Inr (sort (remdups (map fst (namespace m)))), m)
      | Some hook \<Rightarrow>
          (case call_no_args hook of
             (ops, Raises e) \<Rightarrow> (Inl e, changed ops m)
           | (ops, Returns v) \<Rightarrow>
               (case names_of v of
                  Inl e \<Rightarrow> (Inl e, changed ops m)
                | Inr names \<Rightarrow> (Inr (sort names), changed ops m))))"

definition getattr :: "py_module \<Rightarrow> string \<Rightarrow> py_exc + attribute" where
  "getattr m name =
     (case map_of (namespace m) name of
        None \<Rightarrow> Inl (PyException ''AttributeError''
                  (Str (''module '' @ quote ''test_module'' @ '' has no attribute ''
                          @ quote name)))
      | Some a \<Rightarrow> Inr a)"

text \<open>
  What \<open>importlib\<close> makes of a path: no spec at all (\<open>spec_from_file_location\<close> returns
  \<open>None\<close> for a suffix without a loader), a module whose top-level execution raises
  (a missing file raises \<open>FileNotFoundError\<close> here, with an empty namespace), or a
  module that executes to the end and defines a namespace.
\<close>

datatype source_file =
    NoLoader
  | ExecRaises py_exc "(string \<times> attribute) list"
  | Defines "(string \<times> attribute) list"

text \<open>
  The actions of the profiling session on the process, in the order they happen. The
  log is a ghost field: the code keeps no such list.
\<close>

datatype event =
    TracemallocStart
  | ExecModule string
  | ProfilerEnable
  | ReadClock
  | CallTest string
  | ProfilerDisable
  | GetTracedMemory
  | TracemallocStop
  | PrintStats

record world =
  tracing :: bool
  profiling :: bool
  sys_modules :: "string \<Rightarrow> py_module option"
  events :: "event list"

definition log_event :: "event \<Rightarrow> world \<Rightarrow> world" where
  "log_event e w = w\<lparr>events := events w @ [e]\<rparr>"

text \<open>What the clock, the memory tracer and the profiler report during one run.\<close>

record readings =
  t_start :: real
  t_end :: real
  traced_current :: nat
  traced_peak :: nat
  stats_text :: string
  now_iso :: string

record profile_data =
  profile_stats :: string
  test_file :: string
  test_output :: string
  timestamp :: string
  execution_time :: real
  memory_current :: real
  memory_peak :: real

section \<open>run_test_with_profiling\<close>

text \<open>
  The module object is shared: the local variable \<open>test_module\<close> and the entry of
  \<open>sys.modules\<close> made at line 36 are the same object, so a change of its namespace
  shows in both. \<open>register_module\<close> writes the entry.
\<close>

definition register_module :: "py_module \<Rightarrow> world \<Rightarrow> world" where
  "register_module m w = w\<lparr>sys_modules := (sys_modules w)(''test_module'' \<mapsto> m)\<rparr>"

text \<open>
  The loop of lines 47-54 over the names that \<open>dir(test_module)\<close> gave, with the list
  \<open>test_output\<close> as accumulator. \<open>getattr\<close> (line 49) is outside the \<open>try\<close>: when the
  name is not bound any more, \<open>AttributeError\<close> leaves the loop. The call (line 51) is
  inside: an \<open>Exception\<close> is caught and \<open>str(e)\<close> is taken in the handler (line 54), where
  an exception of \<open>__str__\<close> leaves the loop; an exception that is not an \<open>Exception\<close>
  leaves the loop and the function.
\<close>

fun run_tests :: "py_module \<Rightarrow> string list \<Rightarrow> string list \<Rightarrow> world
    \<Rightarrow> (py_exc + string list) \<times> world" where
  "run_tests m [] out w = (Inr out, w)"
| "run_tests m (name # names) out w =
     (if prefix ''test_'' name then
        (case getattr m name of
           Inl e \<Rightarrow> (Inl e, w)
         | Inr test_func \<Rightarrow>
             (case call_no_args test_func of
                (ops, Returns v) \<Rightarrow>
                  run_tests (changed ops m) names (out @ [''Test '' @ name @ '' passed''])
                    (register_module (changed ops m) (log_event (CallTest name) w))
              | (ops, Raises e) \<Rightarrow>
                  if is_Exception e
                  then (case exc_str e of
                          Inl e' \<Rightarrow>
                            (Inl e', register_module (changed ops m) (log_event (CallTest name) w))
                        | Inr msg \<Rightarrow>
                            run_tests (changed ops m) names
                              (out @ [''Test '' @ name @ '' failed: '' @ msg])
                              (register_module (changed ops m) (log_event (CallTest name) w)))
                  else (Inl e, register_module (changed ops m) (log_event (CallTest name) w))))
      else run_tests m names out w)"

text \<open>Lines 47-54: the names of \<open>dir(test_module)\<close>, then the loop over them.\<close>

definition execute :: "py_module \<Rightarrow> world \<Rightarrow> (py_exc + string list) \<times> world" where
  "execute m w =
     (case dir_module m of
        (Inl e, m1) \<Rightarrow> (Inl e, register_module m1 w)
      | (Inr names, m1) \<Rightarrow> run_tests m1 names [] (register_module m1 w))"

definition build_record :: "readings \<Rightarrow> string \<Rightarrow> string list \<Rightarrow> profile_data" where
  "build_record rd path out =
     \<lparr>profile_stats = stats_text rd,
      test_file = path,
      test_output = join [CHR 0x0A] out,
      timestamp = now_iso rd,
      execution_time = t_end rd - t_start rd,
      memory_current = real (traced_current rd) / 1024 / 1024,
      memory_peak = real (traced_peak rd) / 1024 / 1024\<rparr>"

definition run_test_with_profiling :: "(string \<Rightarrow> source_file) \<Rightarrow> readings \<Rightarrow> world \<Rightarrow> string
    \<Rightarrow> (py_exc + profile_data) \<times> world" where
  "run_test_with_profiling files rd w0 path =
     (let w1 = log_event TracemallocStart (w0\<lparr>tracing := True\<rparr>) in
      case files path of
        NoLoader \<Rightarrow>
          (Inl (PyException ''AttributeError''
                  (Str (quote ''NoneType'' @ '' object has no attribute '' @ quote ''loader''))),
           w1)
      | ExecRaises e ns \<Rightarrow>
          (Inl e, log_event (ExecModule path)
                    (register_module \<lparr>mod_file = path, namespace = ns\<rparr> w1))
      | Defines ns \<Rightarrow>
          (let test_module = \<lparr>mod_file = path, namespace = ns\<rparr>;
               w2 = log_event (ExecModule path) (register_module test_module w1);
               w3 = log_event ProfilerEnable (w2\<lparr>profiling := True\<rparr>);
               w4 = log_event ReadClock w3
           in case execute test_module w4 of
                (Inl e, w5) \<Rightarrow> (Inl e, w5)
              | (Inr out, w5) \<Rightarrow>
                  (let w6 = log_event ReadClock w5;
                       w7 = log_event ProfilerDisable (w6\<lparr>profiling := False\<rparr>);
                       w8 = log_event GetTracedMemory w7;
                       w9 = log_event TracemallocStop (w8\<lparr>tracing := False\<rparr>);
                       w10 = log_event PrintStats w9
                   in (Inr (build_record rd path out), w10))))"

section \<open>_format_profiling_results\<close>

text \<open>
  Line 333: the status shown is \<open>PASSED\<close> when the lower-cased \<open>test_output\<close> has no
  substring \<open>failed\<close>. The two-decimal rendering of a float (\<open>:.2f\<close>) is the
  parameter \<open>fmt2\<close>.
\<close>

definition test_status :: "profile_data \<Rightarrow> string" where
  "test_status pd =
     (if \<not> sublist ''failed'' (lower (test_output pd)) then ''PASSED'' else ''FAILED'')"

definition format_profiling_results :: "(real \<Rightarrow> string) \<Rightarrow> profile_data \<Rightarrow> string" where
  "format_profiling_results fmt2 pd =
     join [CHR 0x0A]
       [''=== Quick Profiling Summary ==='',
        ''Execution Time: '' @ fmt2 (execution_time pd) @ ''s | Memory: ''
          @ fmt2 (memory_peak pd) @ ''MB peak'',
        ''Test Status: '' @ test_status pd]"

section \<open>analyze_with_llm\<close>

text \<open>
  The dictionary passed to \<open>analyze_with_llm\<close> is one of the two the program builds: a
  profile record, or the comparative record of \<open>compare_implementations\<close>. Reading a key
  the dictionary does not have raises \<open>KeyError\<close>. A prompt is its template and the
  values put into it. The analysis collaborator is a parameter: what the POST of a prompt
  does (\<open>requests.post\<close> raises, \<open>raise_for_status\<close> raises, reading
  \<open>response.json()["response"]\<close> raises, or the response text arrives). Reading a source
  file is a parameter as well.
\<close>

record comparative_data =
  test_file1 :: string
  test_file2 :: string
  profile_stats1 :: string
  profile_stats2 :: string

datatype analysis_input = ProfileDict profile_data | ComparativeDict comparative_data

datatype prompt =
    ComparativePrompt string string string string
  | PatternPrompt string string string
  | StandardPrompt string real real

datatype http_outcome =
    PostRaises py_exc
  | StatusRaises py_exc
  | BodyRaises py_exc
  | Response string

definition key_error :: "string \<Rightarrow> py_exc" where
  "key_error k = PyException ''KeyError'' (Str (quote k))"

definition build_prompt :: "(string \<Rightarrow> py_exc + string) \<Rightarrow> analysis_input \<Rightarrow> string
    \<Rightarrow> py_exc + prompt" where
  "build_prompt read_file profile_data analysis_type =
     (if analysis_type = ''comparative'' then
        (case profile_data of
           ProfileDict pd \<Rightarrow> Inl (key_error ''test_file1'')
         | ComparativeDict cd \<Rightarrow>
             Inr (ComparativePrompt (test_file1 cd) (profile_stats1 cd)
                    (test_file2 cd) (profile_stats2 cd)))
      else if analysis_type = ''pattern'' then
        (case profile_data of
           ComparativeDict cd \<Rightarrow> Inl (key_error ''test_file'')
         | ProfileDict pd \<Rightarrow>
             Inr (PatternPrompt (test_file pd) (test_output pd) (profile_stats pd)))
      else
        (case profile_data of
           ComparativeDict cd \<Rightarrow> Inl (key_error ''test_file'')
         | ProfileDict pd \<Rightarrow>
             (case read_file (test_file pd) of
                Inl e \<Rightarrow> Inl e
              | Inr original_code \<Rightarrow>
                  Inr (StandardPrompt original_code (execution_time pd) (memory_peak pd)))))"

text \<open>
  The handler of lines 153-154: \<open>except Exception\<close> turns the error into text, with
  \<open>str(e)\<close> taken inside the handler.
\<close>

definition llm_handler :: "py_exc \<Rightarrow> py_exc + string" where
  "llm_handler e =
     (if is_Exception e
      then (case exc_str e of
              Inl e' \<Rightarrow> Inl e'
            | Inr msg \<Rightarrow> Inr (''Error analyzing with LLM: '' @ msg))
      else Inl e)"

definition analyze_with_llm :: "(string \<Rightarrow> py_exc + string) \<Rightarrow> (prompt \<Rightarrow> http_outcome)
    \<Rightarrow> analysis_input \<Rightarrow> string \<Rightarrow> py_exc + string" where
  "analyze_with_llm read_file post profile_data analysis_type =
     (case build_prompt read_file profile_data analysis_type of
        Inl e \<Rightarrow> Inl e
      | Inr p \<Rightarrow>
          (case post p of
             PostRaises e \<Rightarrow> llm_handler e
           | StatusRaises e \<Rightarrow> llm_handler e
           | BodyRaises e \<Rightarrow> llm_handler e
           | Response text \<Rightarrow> Inr text))"

section \<open>The history file\<close>

text \<open>
  \<open>performance_history.json\<close> is absent, or holds something \<open>json.load\<close> rejects, or
  holds the list of records that earlier calls of \<open>save_to_history\<close> wrote. Writing and
  reading back a record changes nothing in it, and the time stamps, written by
  \<open>isoformat\<close>, are kept as text.
\<close>

datatype history_file = Absent | Malformed | Stored "profile_data list"

definition json_error :: py_exc where
  "json_error =
     PyException ''JSONDecodeError'' (Str ''Expecting value: line 1 column 1 (char 0)'')"

definition save_to_history :: "history_file \<Rightarrow> profile_data \<Rightarrow> py_exc + history_file" where
  "save_to_history hf pd =
     (case hf of
        Absent \<Rightarrow> Inr (Stored ([] @ [pd]))
      | Malformed \<Rightarrow> Inl json_error
      | Stored history \<Rightarrow> Inr (Stored (history @ [pd])))"

text \<open>Successive calls of \<open>save_to_history\<close>, stopping at the first that raises.\<close>

fun save_all :: "history_file \<Rightarrow> profile_data list \<Rightarrow> py_exc + history_file" where
  "save_all hf [] = Inr hf"
| "save_all hf (pd # pds) =
     (case save_to_history hf pd of Inl e \<Rightarrow> Inl e | Inr hf' \<Rightarrow> save_all hf' pds)"

text \<open>Line 177: the entries of the history recorded for one test file.\<close>

definition test_history :: "profile_data list \<Rightarrow> string \<Rightarrow> profile_data list" where
  "test_history history path = filter (\<lambda>h. test_file h = path) history"

record plot =
  plot_file :: string
  plot_title :: string
  timestamps :: "string list"
  execution_times :: "real list"
  memory_usage :: "real list"

definition basename :: "string \<Rightarrow> string" where
  "basename path = rev (takeWhile (\<lambda>c. c \<noteq> CHR ''/'') (rev path))"

definition replace_char :: "char \<Rightarrow> char \<Rightarrow> string \<Rightarrow> string" where
  "replace_char a b s = map (\<lambda>c. if c = a then b else c) s"

text \<open>
  \<open>plot_performance_history\<close> returns its message; the second component is the figure
  it saved, if any.
\<close>

definition plot_performance_history :: "history_file \<Rightarrow> string
    \<Rightarrow> py_exc + (string \<times> plot option)" where
  "plot_performance_history hf path =
     (case hf of
        Absent \<Rightarrow> Inr (''No history data available'', None)
      | Malformed \<Rightarrow> Inl json_error
      | Stored history \<Rightarrow>
          (let entries = test_history history path in
           if entries = [] then Inr (''No history data available for this test file'', None)
           else
             (let safe_filename =
                    replace_char (CHR ''/'') (CHR ''_'')
                      (replace_char (CHR 0x5C) (CHR ''_'') (basename path));
                  file = ''performance_history_'' @ safe_filename @ ''.png''
              in Inr (''Performance history plot saved to '' @ file,
                      Some \<lparr>plot_file = file,
                            plot_title = ''Execution Time History: '' @ basename path,
                            timestamps = map timestamp entries,
                            execution_times = map execution_time entries,
                            memory_usage = map memory_peak entries\<rparr>))))"

section \<open>compare_implementations\<close>



section \<open>The specification's view of test outcomes\<close>

text \<open>
  The specification speaks of outcomes \<open>(name, status, detail)\<close>; the code keeps one line
  of text per outcome. \<open>outcome_line\<close> is the line the code writes for an outcome, and
  \<open>outcome_of\<close> the outcome that a call of the attribute bound to the name stands for.
  \<open>test_names\<close> are the names that \<open>execute\<close> selects from what \<open>dir\<close> lists, and
  \<open>outcome_lines\<close> the lines of their outcomes in the module as \<open>dir\<close> left it.

  A call is \<open>recorded\<close> when the loop can write its line: it returns, or it raises an
  \<open>Exception\<close> whose \<open>str\<close> returns. An attribute is \<open>steady\<close> when its call neither
  deletes nor binds a name that starts with \<open>test_\<close>; a module has \<open>steady_tests\<close> when
  all its \<open>test_\<close> attributes are steady, and is \<open>inert\<close> when no call of an attribute
  changes its namespace at all.
\<close>

datatype status = Passed | Failed

type_synonym outcome = "string \<times> status \<times> string option"

fun outcome_line :: "outcome \<Rightarrow> string" where
  "outcome_line (name, Passed, detail) = ''Test '' @ name @ '' passed''"
| "outcome_line (name, Failed, detail) =
     ''Test '' @ name @ '' failed: '' @ (case detail of None \<Rightarrow> [] | Some msg \<Rightarrow> msg)"

fun detail_of :: "py_exc \<Rightarrow> string option" where
  "detail_of e = (case exc_str e of Inl e' \<Rightarrow> None | Inr msg \<Rightarrow> Some msg)"

definition outcome_of :: "py_module \<Rightarrow> string \<Rightarrow> outcome" where
  "outcome_of m name =
     (case map_of (namespace m) name of
        None \<Rightarrow> (name, Failed, None)
      | Some a \<Rightarrow>
          (case snd (call_no_args a) of
             Returns v \<Rightarrow> (name, Passed, None)
           | Raises e \<Rightarrow> (name, Failed, detail_of e)))"

fun recorded :: "call_outcome \<Rightarrow> bool" where
  "recorded (Returns v) = True"
| "recorded (Raises e) = (is_Exception e \<and> detail_of e \<noteq> None)"

fun op_name :: "ns_op \<Rightarrow> string" where
  "op_name (DelAttr name) = name"
| "op_name (SetAttr name a) = name"

definition steady :: "attribute \<Rightarrow> bool" where
  "steady a = list_all (\<lambda>op. \<not> prefix ''test_'' (op_name op)) (fst (call_no_args a))"

definition test_names :: "py_module \<Rightarrow> string list" where
  "test_names m =
     (case dir_module m of
        (Inl e, m1) \<Rightarrow> []
      | (Inr names, m1) \<Rightarrow> filter (prefix ''test_'') names)"

definition outcome_lines :: "py_module \<Rightarrow> string list" where
  "outcome_lines m =
     map (\<lambda>n. outcome_line (outcome_of (snd (dir_module m)) n)) (test_names m)"

definition steady_tests :: "py_module \<Rightarrow> bool" where
  "steady_tests m =
     list_all (\<lambda>kv. steady (snd kv))
       (filter (\<lambda>kv. prefix ''test_'' (fst kv)) (namespace (snd (dir_module m))))"

definition inert :: "py_module \<Rightarrow> bool" where
  "inert m = list_all (\<lambda>kv. fst (call_no_args (snd kv)) = []) (namespace m)"

text \<open>
  What one pass of the loop does with a name: it skips it; or \<open>getattr\<close> raises; or the
  call changes the namespace and a line is written; or the call changes the namespace
  and an exception leaves the loop.
\<close>

datatype pass = Skipped | Unbound py_exc | Written "ns_op list" string | Escaped "ns_op list" py_exc

definition test_pass :: "py_module \<Rightarrow> string \<Rightarrow> pass" where
  "test_pass m name =
     (if prefix ''test_'' name then
        (case getattr m name of
           Inl e \<Rightarrow> Unbound e
         | Inr test_func \<Rightarrow>
             (case call_no_args test_func of
                (ops, Returns v) \<Rightarrow> Written ops (''Test '' @ name @ '' passed'')
              | (ops, Raises e) \<Rightarrow>
                  if is_Exception e
                  then (case exc_str e of
                          Inl e' \<Rightarrow> Escaped ops e'
                        | Inr msg \<Rightarrow> Written ops (''Test '' @ name @ '' failed: '' @ msg))
                  else Escaped ops e))
      else Skipped)"

text \<open>
  The order of the session's steps in the specification's words (section 4.2): start memory
  tracing, start CPU profiling, record the start time, invoke the work, record the end
  time, stop CPU profiling and extract the stats, read and stop memory tracing.
  \<open>window\<close> is what happens strictly between the first \<open>start\<close> and the next \<open>stop\<close>.
\<close>

definition spec_session_order :: "event list \<Rightarrow> event list" where
  "spec_session_order work =
     [TracemallocStart, ProfilerEnable, ReadClock] @ work @
     [ReadClock, ProfilerDisable, PrintStats, GetTracedMemory, TracemallocStop]"

definition window :: "event \<Rightarrow> event \<Rightarrow> event list \<Rightarrow> event list" where
  "window start stop evs =
     takeWhile (\<lambda>e. e \<noteq> stop) (drop 1 (dropWhile (\<lambda>e. e \<noteq> start) evs))"


text \<open>
  The records a history file holds, and the points \<open>(timestamp, execution time, peak
  memory)\<close> of the figure that \<open>plot_performance_history\<close> draws, none when it draws no
  figure.
\<close>

fun stored :: "history_file \<Rightarrow> profile_data list" where
  "stored Absent = []"
| "stored Malformed = []"
| "stored (Stored history) = history"

definition point :: "profile_data \<Rightarrow> string \<times> real \<times> real" where
  "point h = (timestamp h, execution_time h, memory_peak h)"

fun plotted :: "string \<times> plot option \<Rightarrow> (string \<times> real \<times> real) list" where
  "plotted (msg, None) = []"
| "plotted (msg, Some p) = zip (timestamps p) (zip (execution_times p) (memory_usage p))"

section \<open>Sample inputs\<close>

definition idle :: world where
  "idle = \<lparr>tracing = False, profiling = False, sys_modules = Map.empty, events = []\<rparr>"

definition sample_readings :: readings where
  "sample_readings =
     \<lparr>t_start = 10, t_end = 12, traced_current = 1048576, traced_peak = 2097152,
      stats_text = ''3 function calls in 2.000 seconds'', now_iso = ''2024-05-01T12:00:00''\<rparr>"

definition later_readings :: readings where
  "later_readings =
     \<lparr>t_start = 20, t_end = 21, traced_current = 524288, traced_peak = 1048576,
      stats_text = ''2 function calls in 1.000 seconds'', now_iso = ''2024-05-01T12:00:05''\<rparr>"

definition file_not_found :: py_exc where
  "file_not_found =
     PyException ''FileNotFoundError'' (Str ''[Errno 2] No such file or directory'')"

text \<open>\<open>test_ok\<close> is defined before \<open>test_fail\<close>.\<close>

definition ns_ok_fail :: "(string \<times> attribute) list" where
  "ns_ok_fail =
     [(''__name__'', NonCallable ''str''),
      (''test_ok'', Callable [] (Returns PyNone)),
      (''test_fail'', Callable [] (Raises (PyException ''AssertionError'' (Str ''x''))))]"

definition ns_interrupt :: "(string \<times> attribute) list" where
  "ns_interrupt =
     [(''test_a'', Callable [] (Raises (PyBaseException ''KeyboardInterrupt'' (Str [])))),
      (''test_b'', Callable [] (Returns PyNone))]"

definition ns_data :: "(string \<times> attribute) list" where
  "ns_data = [(''test_data'', NonCallable ''int'')]"

definition ns_named :: "(string \<times> attribute) list" where
  "ns_named = [(''test_failed_login'', Callable [] (Returns (PyBool True)))]"

definition ns_mixed :: "(string \<times> attribute) list" where
  "ns_mixed =
     [(''test_z'', Callable [] (Returns (PyInt 7))),
      (''helper'', Callable [] (Returns PyNone)),
      (''test_limit'', NonCallable ''int''),
      (''test_a'', Callable [] (Raises (PyException ''ValueError'' (Str ''bad value''))))]"

text \<open>
  \<open>test_a\<close> deletes \<open>test_b\<close>; the \<open>__str__\<close> of the exception of \<open>test_a\<close> raises;
  a module-level \<open>__dir__\<close> lists \<open>test_b\<close> and \<open>helper\<close> only; \<open>test_a\<close> binds a new
  name and leaves the tests alone.
\<close>

definition ns_deleter :: "(string \<times> attribute) list" where
  "ns_deleter =
     [(''test_a'', Callable [DelAttr ''test_b''] (Returns PyNone)),
      (''test_b'', Callable [] (Returns PyNone))]"

definition ns_badstr :: "(string \<times> attribute) list" where
  "ns_badstr =
     [(''test_a'', Callable []
         (Raises (PyException ''Broken''
            (StrRaises (PyException ''RuntimeError'' (Str ''no text'')))))),
      (''test_b'', Callable [] (Returns PyNone))]"

definition ns_hook :: "(string \<times> attribute) list" where
  "ns_hook =
     [(''__dir__'', Callable [] (Returns (PyStrList [''test_b'', ''helper'']))),
      (''test_a'', Callable [] (Returns PyNone)),
      (''test_b'', Callable [] (Returns PyNone)),
      (''helper'', Callable [] (Returns PyNone))]"

definition ns_setter :: "(string \<times> attribute) list" where
  "ns_setter =
     [(''test_b'', Callable [] (Raises (PyException ''ValueError'' (Str ''bad value'')))),
      (''test_a'', Callable [SetAttr ''seen'' (NonCallable ''bool'')] (Returns PyNone))]"

definition sample_files :: "string \<Rightarrow> source_file" where
  "sample_files path =
     (if path = ''ok_fail.py'' then Defines ns_ok_fail
      else if path = ''interrupt.py'' then Defines ns_interrupt
      else if path = ''data.py'' then Defines ns_data
      else if path = ''named.py'' then Defines ns_named
      else if path = ''mixed.py'' then Defines ns_mixed
      else if path = ''deleter.py'' then Defines ns_deleter
      else if path = ''badstr.py'' then Defines ns_badstr
      else if path = ''hook.py'' then Defines ns_hook
      else if path = ''setter.py'' then Defines ns_setter
      else if path = ''notes.txt'' then NoLoader
      else ExecRaises file_not_found [])"

definition record_a1 :: profile_data where
  "record_a1 = build_record sample_readings ''a.py'' [''Test test_one passed'']"

definition record_b :: profile_data where
  "record_b = build_record sample_readings ''b.py'' [''Test test_two failed: boom'']"

definition record_a2 :: profile_data where
  "record_a2 = build_record later_readings ''a.py'' [''Test test_one passed'']"

definition sample_read_file :: "string \<Rightarrow> py_exc + string" where
  "sample_read_file path =
     (if path = ''ok_fail.py'' then Inr ''def test_ok(): pass''
      else Inl file_not_found)"

definition refused :: "prompt \<Rightarrow> http_outcome" where
  "refused p = PostRaises (PyException ''ConnectionError'' (Str ''Connection refused''))"

definition server_error :: "prompt \<Rightarrow> http_outcome" where
  "server_error p =
     StatusRaises
       (PyException ''HTTPError'' (Str ''500 Server Error: Internal Server Error''))"


section \<open>Properties of the test loop\<close>

lemma register_module_fields [simp]:
  "tracing (register_module m w) = tracing w"
  "profiling (register_module m w) = profiling w"
  "events (register_module m w) = events w"
  "sys_modules (register_module m w) = (sys_modules w)(''test_module'' \<mapsto> m)"
  by (simp_all add: register_module_def)

lemma log_event_fields [simp]:
  "tracing (log_event e w) = tracing w"
  "profiling (log_event e w) = profiling w"
  "events (log_event e w) = events w @ [e]"
  "sys_modules (log_event e w) = sys_modules w"
  by (simp_all add: log_event_def)

lemma changed_fields [simp]:
  "mod_file (changed ops m) = mod_file m"
  "namespace (changed ops m) = apply_ops ops (namespace m)"
  "changed [] m = m"
  by (simp_all add: changed_def)

lemma getattr_Inr_iff: "getattr m n = Inr a \<longleftrightarrow> map_of (namespace m) n = Some a"
  by (simp add: getattr_def split: option.splits)

lemma inert_call:
  assumes "inert m" and "getattr m n = Inr a"
  shows "fst (call_no_args a) = []"
proof -
  from assms(2) have "(n, a) \<in> set (namespace m)"
    by (simp add: getattr_Inr_iff map_of_SomeD)
  with assms(1) show ?thesis by (auto simp: inert_def list_all_iff)
qed

text \<open>One step of the loop, for a name that starts with \<open>test_\<close> and is bound.\<close>

lemma run_tests_step:
  assumes "prefix ''test_'' name" and "getattr m name = Inr a" and "call_no_args a = (ops, c)"
  shows "run_tests m (name # names) out w =
    (case c of
       Returns v \<Rightarrow>
         run_tests (changed ops m) names (out @ [''Test '' @ name @ '' passed''])
           (register_module (changed ops m) (log_event (CallTest name) w))
     | Raises e \<Rightarrow>
         if is_Exception e
         then (case exc_str e of
                 Inl e' \<Rightarrow> (Inl e', register_module (changed ops m) (log_event (CallTest name) w))
               | Inr msg \<Rightarrow>
                   run_tests (changed ops m) names (out @ [''Test '' @ name @ '' failed: '' @ msg])
                     (register_module (changed ops m) (log_event (CallTest name) w)))
         else (Inl e, register_module (changed ops m) (log_event (CallTest name) w)))"
  using assms by (simp split: call_outcome.splits)

lemma run_tests_skip:
  "\<not> prefix ''test_'' name \<Longrightarrow> run_tests m (name # names) out w = run_tests m names out w"
  by simp

lemma run_tests_unbound:
  "prefix ''test_'' name \<Longrightarrow> getattr m name = Inl e \<Longrightarrow>
     run_tests m (name # names) out w = (Inl e, w)"
  by simp

declare run_tests.simps(2) [simp del]

lemma run_tests_frame:
  "run_tests m names out w = (r, w') \<Longrightarrow>
     tracing w' = tracing w \<and> profiling w' = profiling w
     \<and> (\<forall>k. k \<noteq> ''test_module'' \<longrightarrow> sys_modules w' k = sys_modules w k)
     \<and> (sys_modules w ''test_module'' = Some m \<longrightarrow>
          (\<exists>m'. sys_modules w' ''test_module'' = Some m' \<and> mod_file m' = mod_file m))
     \<and> (inert m \<longrightarrow> sys_modules w ''test_module'' = Some m \<longrightarrow>
          sys_modules w' ''test_module'' = Some m)"
proof (induction names arbitrary: m out w)
  case Nil
  then show ?case by auto
next
  case (Cons name names)
  show ?case
  proof (cases "prefix ''test_'' name")
    case False
    with Cons.prems have "run_tests m names out w = (r, w')" by (simp add: run_tests_skip)
    from Cons.IH [OF this] show ?thesis .
  next
    case True
    show ?thesis
    proof (cases "getattr m name")
      case (Inl e)
      with True Cons.prems show ?thesis by (auto simp: run_tests_unbound)
    next
      case (Inr a)
      obtain ops c where call: "call_no_args a = (ops, c)" by (cases "call_no_args a")
      define m1 where "m1 = changed ops m"
      define w1 where "w1 = register_module m1 (log_event (CallTest name) w)"
      have w1: "tracing w1 = tracing w" "profiling w1 = profiling w"
        "\<forall>k. k \<noteq> ''test_module'' \<longrightarrow> sys_modules w1 k = sys_modules w k"
        "sys_modules w1 ''test_module'' = Some m1" "mod_file m1 = mod_file m"
        by (simp_all add: w1_def m1_def)
      have in1: "inert m \<Longrightarrow> m1 = m"
        using inert_call [OF _ Inr] call by (simp add: m1_def)
      have stop: "(Inl e', w1) = (r, w') \<Longrightarrow> ?thesis" for e'
        using w1 in1 by auto
      have go: "run_tests m1 names out1 w1 = (r, w') \<Longrightarrow> ?thesis" for out1
      proof -
        assume "run_tests m1 names out1 w1 = (r, w')"
        from Cons.IH [OF this] w1 in1 show ?thesis by auto
      qed
      note eq = run_tests_step [OF True Inr call, of names out w, folded m1_def, folded w1_def]
      show ?thesis
      proof (cases c)
        case (Returns v)
        with eq Cons.prems
        have "run_tests m1 names (out @ [''Test '' @ name @ '' passed'']) w1 = (r, w')" by simp
        then show ?thesis by (rule go)
      next
        case (Raises e)
        show ?thesis
        proof (cases "is_Exception e")
          case False
          with Raises eq Cons.prems have "(Inl e, w1) = (r, w')" by simp
          then show ?thesis by (rule stop)
        next
          case exc: True
          show ?thesis
          proof (cases "exc_str e")
            case (Inl e')
            with exc Raises eq Cons.prems have "(Inl e', w1) = (r, w')" by simp
            then show ?thesis by (rule stop)
          next
            case (Inr msg)
            with exc Raises eq Cons.prems
            have "run_tests m1 names (out @ [''Test '' @ name @ '' failed: '' @ msg]) w1 = (r, w')"
              by simp
            then show ?thesis by (rule go)
          qed
        qed
      qed
    qed
  qed
qed

lemma run_tests_Cons:
  "run_tests m (name # names) out w =
     (case test_pass m name of
        Skipped \<Rightarrow> run_tests m names out w
      | Unbound e \<Rightarrow> (Inl e, w)
      | Written ops line \<Rightarrow>
          run_tests (changed ops m) names (out @ [line])
            (register_module (changed ops m) (log_event (CallTest name) w))
      | Escaped ops e \<Rightarrow>
          (Inl e, register_module (changed ops m) (log_event (CallTest name) w)))"
  by (simp add: run_tests.simps(2) test_pass_def
      split: sum.splits prod.splits call_outcome.splits)

lemma test_pass_Skipped: "test_pass m name = Skipped \<longleftrightarrow> \<not> prefix ''test_'' name"
  by (simp add: test_pass_def split: sum.splits prod.splits call_outcome.splits)

lemma test_pass_prefix:
  "test_pass m name = Unbound e \<Longrightarrow> prefix ''test_'' name"
  "test_pass m name = Written ops line \<Longrightarrow> prefix ''test_'' name"
  "test_pass m name = Escaped ops e \<Longrightarrow> prefix ''test_'' name"
  by (simp_all add: test_pass_def split: if_splits)

lemma test_pass_Written:
  assumes "test_pass m name = Written ops line"
  shows "\<exists>a. getattr m name = Inr a \<and> ops = fst (call_no_args a)
            \<and> recorded (snd (call_no_args a))
            \<and> line = outcome_line (outcome_of m name)
            \<and> prefix (''Test '' @ name @ '' '') line"
proof -
  from assms have p: "prefix ''test_'' name" by (rule test_pass_prefix)
  with assms obtain a where a: "getattr m name = Inr a"
    by (cases "getattr m name") (simp_all add: test_pass_def)
  then have look: "map_of (namespace m) name = Some a" by (simp add: getattr_Inr_iff)
  obtain ops' c where call: "call_no_args a = (ops', c)" by (cases "call_no_args a")
  show ?thesis
  proof (cases c)
    case (Returns v)
    with assms p a call look show ?thesis
      by (auto simp: test_pass_def outcome_of_def)
  next
    case (Raises e)
    with assms p a call look show ?thesis
      by (cases "exc_str e") (auto simp: test_pass_def outcome_of_def split: if_splits)
  qed
qed

lemma test_pass_recorded:
  assumes "prefix ''test_'' name" and "getattr m name = Inr a"
    and "recorded (snd (call_no_args a))"
  shows "test_pass m name = Written (fst (call_no_args a)) (outcome_line (outcome_of m name))"
proof -
  from assms(2) have look: "map_of (namespace m) name = Some a" by (simp add: getattr_Inr_iff)
  obtain ops c where call: "call_no_args a = (ops, c)" by (cases "call_no_args a")
  show ?thesis
  proof (cases c)
    case (Returns v)
    with assms call look show ?thesis by (simp add: test_pass_def outcome_of_def)
  next
    case (Raises e)
    with assms call look show ?thesis
      by (cases "exc_str e") (simp_all add: test_pass_def outcome_of_def)
  qed
qed

lemma run_tests_any_world:
  "fst (run_tests m names out w) = fst (run_tests m names out v)"
proof (induction names arbitrary: m out w v)
  case Nil
  show ?case by simp
next
  case (Cons name names)
  show ?case
  proof (cases "test_pass m name")
    case Skipped
    then show ?thesis by (simp add: run_tests_Cons Cons.IH [of m out w v])
  next
    case (Unbound e)
    then show ?thesis by (simp add: run_tests_Cons)
  next
    case (Written ops line)
    then show ?thesis
      by (simp add: run_tests_Cons
          Cons.IH [of "changed ops m" "out @ [line]"
            "register_module (changed ops m) (log_event (CallTest name) w)"
            "register_module (changed ops m) (log_event (CallTest name) v)"])
  next
    case (Escaped ops e)
    then show ?thesis by (simp add: run_tests_Cons)
  qed
qed

lemma run_tests_returns:
  "run_tests m names out w = (Inr out', w') \<Longrightarrow>
     \<exists>new. out' = out @ new
       \<and> list_all2 (\<lambda>n l. prefix (''Test '' @ n @ '' '') l) (filter (prefix ''test_'') names) new
       \<and> events w' = events w @ map CallTest (filter (prefix ''test_'') names)"
proof (induction names arbitrary: m out w)
  case Nil
  then show ?case by simp
next
  case (Cons name names)
  show ?case
  proof (cases "test_pass m name")
    case Skipped
    with Cons.prems have "run_tests m names out w = (Inr out', w')"
      by (simp add: run_tests_Cons)
    from Cons.IH [OF this] Skipped show ?thesis by (simp add: test_pass_Skipped)
  next
    case (Unbound e)
    with Cons.prems show ?thesis by (simp add: run_tests_Cons)
  next
    case (Escaped ops e)
    with Cons.prems show ?thesis by (simp add: run_tests_Cons)
  next
    case (Written ops line)
    with Cons.prems have "run_tests (changed ops m) names (out @ [line])
        (register_module (changed ops m) (log_event (CallTest name) w)) = (Inr out', w')"
      by (simp add: run_tests_Cons)
    from Cons.IH [OF this] obtain new where
      new: "out' = (out @ [line]) @ new"
        "list_all2 (\<lambda>n l. prefix (''Test '' @ n @ '' '') l) (filter (prefix ''test_'') names) new"
        "events w' = events (register_module (changed ops m) (log_event (CallTest name) w))
            @ map CallTest (filter (prefix ''test_'') names)"
      by blast
    from test_pass_Written [OF Written] have l: "prefix (''Test '' @ name @ '' '') line" by blast
    from test_pass_prefix(2) [OF Written] have p: "prefix ''test_'' name" .
    from new l p have "out' = out @ (line # new)
       \<and> list_all2 (\<lambda>n l. prefix (''Test '' @ n @ '' '') l)
            (filter (prefix ''test_'') (name # names)) (line # new)
       \<and> events w' = events w @ map CallTest (filter (prefix ''test_'') (name # names))"
      by simp
    then show ?thesis by blast
  qed
qed

text \<open>A steady call leaves the attributes of the \<open>test_\<close> names as they are.\<close>

lemma apply_ops_other:
  "\<forall>op\<in>set ops. op_name op \<noteq> n \<Longrightarrow> map_of (apply_ops ops ns) n = map_of ns n"
proof (induction ops arbitrary: ns)
  case Nil
  show ?case by simp
next
  case (Cons op ops)
  then have "map_of (apply_ops ops (apply_op op ns)) n = map_of (apply_op op ns) n" by simp
  moreover from Cons.prems have "map_of (apply_op op ns) n = map_of ns n"
    by (cases op) (auto simp: update_conv' delete_conv')
  ultimately show ?case by simp
qed

lemma steady_getattr:
  assumes "steady a" and "prefix ''test_'' n"
  shows "getattr (changed (fst (call_no_args a)) m) n = getattr m n"
    and "outcome_of (changed (fst (call_no_args a)) m) n = outcome_of m n"
proof -
  from assms have "\<forall>op\<in>set (fst (call_no_args a)). op_name op \<noteq> n"
    by (auto simp: steady_def list_all_iff)
  then have "map_of (apply_ops (fst (call_no_args a)) (namespace m)) n = map_of (namespace m) n"
    by (rule apply_ops_other)
  then show "getattr (changed (fst (call_no_args a)) m) n = getattr m n"
    and "outcome_of (changed (fst (call_no_args a)) m) n = outcome_of m n"
    by (simp_all add: getattr_def outcome_of_def)
qed

lemma run_tests_steady:
  assumes "\<forall>n\<in>set names. prefix ''test_'' n \<longrightarrow>
             (\<exists>a. getattr m n = Inr a \<and> recorded (snd (call_no_args a)) \<and> steady a)"
  shows "\<exists>w'. run_tests m names out w =
           (Inr (out @ map (\<lambda>n. outcome_line (outcome_of m n)) (filter (prefix ''test_'') names)),
            w')"
  using assms
proof (induction names arbitrary: m out w)
  case Nil
  show ?case by simp
next
  case (Cons name names)
  show ?case
  proof (cases "prefix ''test_'' name")
    case False
    from Cons.prems have "\<forall>n\<in>set names. prefix ''test_'' n \<longrightarrow>
             (\<exists>a. getattr m n = Inr a \<and> recorded (snd (call_no_args a)) \<and> steady a)" by simp
    from Cons.IH [OF this, of out w] False show ?thesis
      by (simp add: run_tests_skip)
  next
    case True
    with Cons.prems obtain a where
      a: "getattr m name = Inr a" "recorded (snd (call_no_args a))" "steady a" by auto
    define m1 where "m1 = changed (fst (call_no_args a)) m"
    have same: "prefix ''test_'' n \<Longrightarrow> getattr m1 n = getattr m n \<and> outcome_of m1 n = outcome_of m n"
      for n using steady_getattr [OF a(3)] by (simp add: m1_def)
    from Cons.prems same have "\<forall>n\<in>set names. prefix ''test_'' n \<longrightarrow>
             (\<exists>a. getattr m1 n = Inr a \<and> recorded (snd (call_no_args a)) \<and> steady a)" by simp
    from Cons.IH [OF this, of "out @ [outcome_line (outcome_of m name)]"
        "register_module m1 (log_event (CallTest name) w)"]
    obtain w' where "run_tests m1 names (out @ [outcome_line (outcome_of m name)])
        (register_module m1 (log_event (CallTest name) w)) =
        (Inr ((out @ [outcome_line (outcome_of m name)])
            @ map (\<lambda>n. outcome_line (outcome_of m1 n)) (filter (prefix ''test_'') names)), w')"
      by blast
    moreover have "map (\<lambda>n. outcome_line (outcome_of m1 n)) (filter (prefix ''test_'') names) =
        map (\<lambda>n. outcome_line (outcome_of m n)) (filter (prefix ''test_'') names)"
      by (rule map_cong) (simp_all add: same)
    ultimately have "run_tests m (name # names) out w =
        (Inr (out @ map (\<lambda>n. outcome_line (outcome_of m n))
                      (filter (prefix ''test_'') (name # names))), w')"
      using True test_pass_recorded [OF True a(1) a(2)]
      by (simp add: run_tests_Cons m1_def)
    then show ?thesis by blast
  qed
qed

lemma run_tests_returns_steady:
  assumes "run_tests m names out w = (Inr out', w')"
    and "\<forall>n\<in>set names. prefix ''test_'' n \<longrightarrow> (\<forall>a. getattr m n = Inr a \<longrightarrow> steady a)"
  shows "out' = out @ map (\<lambda>n. outcome_line (outcome_of m n)) (filter (prefix ''test_'') names)"
  using assms
proof (induction names arbitrary: m out w)
  case Nil
  then show ?case by simp
next
  case (Cons name names)
  show ?case
  proof (cases "test_pass m name")
    case Skipped
    with Cons.prems(1) have "run_tests m names out w = (Inr out', w')"
      by (simp add: run_tests_Cons)
    moreover from Cons.prems(2) have "\<forall>n\<in>set names. prefix ''test_'' n \<longrightarrow>
        (\<forall>a. getattr m n = Inr a \<longrightarrow> steady a)" by simp
    ultimately show ?thesis using Cons.IH Skipped by (simp add: test_pass_Skipped)
  next
    case (Unbound e)
    with Cons.prems(1) show ?thesis by (simp add: run_tests_Cons)
  next
    case (Escaped ops e)
    with Cons.prems(1) show ?thesis by (simp add: run_tests_Cons)
  next
    case (Written ops line)
    from test_pass_prefix(2) [OF Written] have p: "prefix ''test_'' name" .
    from test_pass_Written [OF Written] obtain a where
      a: "getattr m name = Inr a" "ops = fst (call_no_args a)"
         "line = outcome_line (outcome_of m name)" by blast
    from Cons.prems(2) p a(1) have st: "steady a" by simp
    define m1 where "m1 = changed ops m"
    have same: "prefix ''test_'' n \<Longrightarrow> getattr m1 n = getattr m n \<and> outcome_of m1 n = outcome_of m n"
      for n using steady_getattr [OF st] by (simp add: m1_def a(2))
    from Written Cons.prems(1) have run: "run_tests m1 names (out @ [line])
        (register_module m1 (log_event (CallTest name) w)) = (Inr out', w')"
      by (simp add: run_tests_Cons m1_def)
    from Cons.prems(2) same have "\<forall>n\<in>set names. prefix ''test_'' n \<longrightarrow>
        (\<forall>a. getattr m1 n = Inr a \<longrightarrow> steady a)" by simp
    from Cons.IH [OF run this]
    have "out' = (out @ [line])
        @ map (\<lambda>n. outcome_line (outcome_of m1 n)) (filter (prefix ''test_'') names)" .
    moreover have "map (\<lambda>n. outcome_line (outcome_of m1 n)) (filter (prefix ''test_'') names) =
        map (\<lambda>n. outcome_line (outcome_of m n)) (filter (prefix ''test_'') names)"
      by (rule map_cong) (simp_all add: same)
    ultimately show ?thesis using p a(3) by simp
  qed
qed

section \<open>Properties of dir and of execute\<close>

lemma dir_module_plain:
  "map_of (namespace m) ''__dir__'' = None \<Longrightarrow>
     dir_module m = (Inr (sort (remdups (map fst (namespace m)))), m)"
  by (simp add: dir_module_def)

lemma dir_module_result:
  assumes "dir_module m = (r, m1)"
  shows "mod_file m1 = mod_file m"
    and "inert m \<Longrightarrow> m1 = m"
    and "r = Inr names \<Longrightarrow> sorted names"
proof -
  show "mod_file m1 = mod_file m"
    using assms
    by (auto simp: dir_module_def split: option.splits prod.splits call_outcome.splits sum.splits)
  show "r = Inr names \<Longrightarrow> sorted names"
    using assms
    by (auto simp: dir_module_def split: option.splits prod.splits call_outcome.splits sum.splits)
  show "inert m \<Longrightarrow> m1 = m"
  proof (cases "map_of (namespace m) ''__dir__''")
    case None
    with assms show ?thesis by (simp add: dir_module_def)
  next
    case (Some hook)
    assume "inert m"
    moreover from Some have "getattr m ''__dir__'' = Inr hook" by (simp add: getattr_Inr_iff)
    ultimately have "fst (call_no_args hook) = []" by (rule inert_call)
    with assms Some show ?thesis
      by (auto simp: dir_module_def split: prod.splits call_outcome.splits sum.splits)
  qed
qed

lemma test_names_sorted: "sorted (test_names m)"
proof (cases "dir_module m")
  case (Pair r m1)
  show ?thesis
  proof (cases r)
    case (Inl e)
    with Pair show ?thesis by (simp add: test_names_def)
  next
    case (Inr names)
    with Pair dir_module_result(3) [OF Pair Inr] show ?thesis
      by (simp add: test_names_def sorted_wrt_filter)
  qed
qed

lemma test_names_plain:
  assumes "map_of (namespace m) ''__dir__'' = None"
  shows "test_names m = filter (prefix ''test_'') (sort (remdups (map fst (namespace m))))"
    and "distinct (test_names m)"
    and "length (test_names m) = card {n \<in> fst ` set (namespace m). prefix ''test_'' n}"
    and "outcome_lines m = map (\<lambda>n. outcome_line (outcome_of m n)) (test_names m)"
proof -
  show tn: "test_names m = filter (prefix ''test_'') (sort (remdups (map fst (namespace m))))"
    by (simp add: test_names_def dir_module_plain [OF assms])
  then show d: "distinct (test_names m)" by simp
  have "set (test_names m) = {n \<in> fst ` set (namespace m). prefix ''test_'' n}"
    by (auto simp: tn)
  with distinct_card [OF d]
  show "length (test_names m) = card {n \<in> fst ` set (namespace m). prefix ''test_'' n}" by simp
  show "outcome_lines m = map (\<lambda>n. outcome_line (outcome_of m n)) (test_names m)"
    by (simp add: outcome_lines_def dir_module_plain [OF assms])
qed

lemma steady_tests_getattr:
  assumes "steady_tests m" and "dir_module m = (r, m1)"
    and "prefix ''test_'' n" and "getattr m1 n = Inr a"
  shows "steady a"
proof -
  from assms(4) have "(n, a) \<in> set (namespace m1)"
    by (simp add: getattr_Inr_iff map_of_SomeD)
  with assms(1,2,3) show ?thesis by (auto simp: steady_tests_def list_all_iff)
qed

lemma execute_any_world: "fst (execute m w) = fst (execute m v)"
proof (cases "dir_module m")
  case (Pair r m1)
  then show ?thesis
    by (cases r)
       (simp_all add: execute_def
          run_tests_any_world [of m1 _ "[]" "register_module m1 w" "register_module m1 v"])
qed

lemma execute_frame:
  assumes "execute m w = (r, w')"
  shows "tracing w' = tracing w \<and> profiling w' = profiling w
     \<and> (\<exists>m'. sys_modules w' = (sys_modules w)(''test_module'' \<mapsto> m')
           \<and> mod_file m' = mod_file m \<and> (inert m \<longrightarrow> m' = m))"
proof -
  obtain r0 m1 where d: "dir_module m = (r0, m1)" by (cases "dir_module m")
  note dm = dir_module_result(1,2) [OF d]
  define w0 where "w0 = register_module m1 w"
  have w0: "sys_modules w0 ''test_module'' = Some m1" by (simp add: w0_def)
  have main: "tracing w' = tracing w0 \<and> profiling w' = profiling w0
     \<and> (\<forall>k. k \<noteq> ''test_module'' \<longrightarrow> sys_modules w' k = sys_modules w0 k)
     \<and> (\<exists>m'. sys_modules w' ''test_module'' = Some m' \<and> mod_file m' = mod_file m1)
     \<and> (inert m1 \<longrightarrow> sys_modules w' ''test_module'' = Some m1)"
  proof (cases r0)
    case (Inl e)
    with assms d have "w' = w0" by (simp add: execute_def w0_def)
    with w0 show ?thesis by simp
  next
    case (Inr names)
    with assms d have "run_tests m1 names [] w0 = (r, w')" by (simp add: execute_def w0_def)
    from run_tests_frame [OF this] w0 show ?thesis by simp
  qed
  then obtain m' where m': "sys_modules w' ''test_module'' = Some m'" "mod_file m' = mod_file m1"
    by blast
  from main m' have "sys_modules w' = (sys_modules w)(''test_module'' \<mapsto> m')"
    by (auto simp: w0_def fun_eq_iff)
  moreover from main m' dm have "inert m \<longrightarrow> m' = m" by auto
  moreover from main have "tracing w' = tracing w \<and> profiling w' = profiling w"
    by (simp add: w0_def)
  ultimately show ?thesis using m'(2) dm(1) by auto
qed

lemma execute_returns:
  assumes "execute m w = (Inr out, w')"
  shows "list_all2 (\<lambda>n l. prefix (''Test '' @ n @ '' '') l) (test_names m) out
       \<and> events w' = events w @ map CallTest (test_names m)
       \<and> (steady_tests m \<longrightarrow> out = outcome_lines m)
       \<and> (\<exists>names m1. dir_module m = (Inr names, m1))"
proof -
  obtain r0 m1 where d: "dir_module m = (r0, m1)" by (cases "dir_module m")
  from assms d obtain names where r0: "r0 = Inr names"
    by (cases r0) (simp_all add: execute_def)
  with assms d have run: "run_tests m1 names [] (register_module m1 w) = (Inr out, w')"
    by (simp add: execute_def)
  from d r0 have tn: "test_names m = filter (prefix ''test_'') names"
    by (simp add: test_names_def)
  from run_tests_returns [OF run] tn
  have "list_all2 (\<lambda>n l. prefix (''Test '' @ n @ '' '') l) (test_names m) out"
    and "events w' = events w @ map CallTest (test_names m)"
    by auto
  moreover have "steady_tests m \<longrightarrow> out = outcome_lines m"
  proof
    assume st: "steady_tests m"
    have "\<forall>n\<in>set names. prefix ''test_'' n \<longrightarrow> (\<forall>a. getattr m1 n = Inr a \<longrightarrow> steady a)"
      using steady_tests_getattr [OF st d] by blast
    from run_tests_returns_steady [OF run this] d tn show "out = outcome_lines m"
      by (simp add: outcome_lines_def)
  qed
  ultimately show ?thesis using d r0 by blast
qed

lemmas run_eval = run_test_with_profiling_def execute_def dir_module_def getattr_def
  run_tests.simps(2) log_event_def register_module_def changed_def

section \<open>Exit paths of the profiling session\<close>

text \<open>
  C1, as stated: both instruments are stopped on every exit of \<open>run_test_with_profiling\<close>,
  also when loading raises. It fails for a file that is not there: \<open>exec_module\<close> raises
  \<open>FileNotFoundError\<close>, the call exits, and memory tracing is still active.
\<close>

theorem run_missing_file_leaves_tracing_counterexample:
  "fst (run_test_with_profiling sample_files sample_readings idle ''gone.py'') = Inl file_not_found
   \<and> tracing (snd (run_test_with_profiling sample_files sample_readings idle ''gone.py''))"
  by (simp add: run_test_with_profiling_def sample_files_def idle_def log_event_def
      register_module_def)

text \<open>
  C1, amended: when \<open>run_test_with_profiling\<close> returns normally, CPU profiling is disabled
  and memory tracing is stopped; when it exits with an exception, nothing was stopped:
  memory tracing is still active, and CPU profiling is enabled if it was enabled before
  the call or the module had loaded, so that the call had enabled it.
\<close>

theorem run_test_with_profiling_exit_paths:
  assumes "run_test_with_profiling files rd w path = (r, w')"
  shows "(case r of
            Inr pd \<Rightarrow> \<not> tracing w' \<and> \<not> profiling w'
          | Inl e \<Rightarrow> tracing w'
              \<and> profiling w' = (profiling w \<or> (\<exists>ns. files path = Defines ns)))"
proof (cases "files path")
  case NoLoader
  with assms show ?thesis by (auto simp: run_test_with_profiling_def)
next
  case (ExecRaises e ns)
  with assms show ?thesis by (auto simp: run_test_with_profiling_def)
next
  case (Defines ns)
  define m where "m = \<lparr>mod_file = path, namespace = ns\<rparr>"
  define w4 where "w4 = log_event ReadClock (log_event ProfilerEnable
      ((log_event (ExecModule path) (register_module m
         (log_event TracemallocStart (w\<lparr>tracing := True\<rparr>))))\<lparr>profiling := True\<rparr>))"
  obtain r5 w5 where r5: "execute m w4 = (r5, w5)" by (cases "execute m w4")
  have "tracing w4 \<and> profiling w4" by (simp add: w4_def)
  with execute_frame [OF r5] have tr5: "tracing w5" "profiling w5" by simp_all
  show ?thesis
  proof (cases r5)
    case (Inl e)
    with assms Defines r5 tr5 show ?thesis
      by (auto simp: run_test_with_profiling_def Let_def m_def w4_def)
  next
    case (Inr out)
    with assms Defines r5 show ?thesis
      by (auto simp: run_test_with_profiling_def Let_def m_def w4_def)
  qed
qed

theorem run_test_with_profiling_exit_paths_witness:
  "fst (run_test_with_profiling sample_files sample_readings idle ''mixed.py'') =
     Inr (build_record sample_readings ''mixed.py''
            [''Test test_a failed: bad value'',
             ''Test test_limit failed: '' @ quote ''int'' @ '' object is not callable'',
             ''Test test_z passed''])
   \<and> \<not> tracing (snd (run_test_with_profiling sample_files sample_readings idle ''mixed.py''))
   \<and> \<not> profiling (snd (run_test_with_profiling sample_files sample_readings idle ''mixed.py''))"
proof -
  have val: "fst (run_test_with_profiling sample_files sample_readings idle ''mixed.py'') =
     Inr (build_record sample_readings ''mixed.py''
            [''Test test_a failed: bad value'',
             ''Test test_limit failed: '' @ quote ''int'' @ '' object is not callable'',
             ''Test test_z passed''])"
    by (simp add: run_eval sample_files_def ns_mixed_def idle_def)
  have "run_test_with_profiling sample_files sample_readings idle ''mixed.py'' =
          (fst (run_test_with_profiling sample_files sample_readings idle ''mixed.py''),
           snd (run_test_with_profiling sample_files sample_readings idle ''mixed.py''))"
    by simp
  from run_test_with_profiling_exit_paths [OF this] val show ?thesis by simp
qed

section \<open>Discovery and execution of the tests\<close>

text \<open>
  C5, as stated: a unit with N callables named \<open>test_...\<close> yields exactly N outcomes, and
  a callable that raises is recorded as failed without interrupting the others. It fails
  in five ways. A callable that raises \<open>KeyboardInterrupt\<close>, which is no \<open>Exception\<close>, is
  not caught by \<open>except Exception\<close>: the loop is left after the first call and no outcome
  is returned. An attribute \<open>test_data = 5\<close> is no callable, yet it is called and
  recorded: no callable named \<open>test_...\<close>, one outcome. A test that deletes a later test
  makes \<open>getattr\<close>, outside the \<open>try\<close>, raise \<open>AttributeError\<close>. An \<open>Exception\<close> whose
  \<open>__str__\<close> raises leaves the loop from inside the handler. And a module-level
  \<open>__dir__\<close> that does not list \<open>test_a\<close> hides it: two callables, one outcome.
\<close>

theorem execute_interrupted_counterexample:
  "fst (execute \<lparr>mod_file = ''interrupt.py'', namespace = ns_interrupt\<rparr> idle) =
     Inl (PyBaseException ''KeyboardInterrupt'' (Str []))
   \<and> events (snd (execute \<lparr>mod_file = ''interrupt.py'', namespace = ns_interrupt\<rparr> idle)) =
       [CallTest ''test_a'']
   \<and> fst (execute \<lparr>mod_file = ''data.py'', namespace = ns_data\<rparr> idle) =
       Inr [''Test test_data failed: '' @ quote ''int'' @ '' object is not callable'']
   \<and> filter (\<lambda>(name, a). prefix ''test_'' name \<and> callable a) ns_data = []
   \<and> fst (execute \<lparr>mod_file = ''deleter.py'', namespace = ns_deleter\<rparr> idle) =
       Inl (PyException ''AttributeError''
              (Str (''module '' @ quote ''test_module'' @ '' has no attribute ''
                      @ quote ''test_b'')))
   \<and> fst (execute \<lparr>mod_file = ''badstr.py'', namespace = ns_badstr\<rparr> idle) =
       Inl (PyException ''RuntimeError'' (Str ''no text''))
   \<and> fst (execute \<lparr>mod_file = ''hook.py'', namespace = ns_hook\<rparr> idle) =
       Inr [''Test test_b passed'']"
  by (simp add: run_eval ns_interrupt_def ns_data_def ns_deleter_def ns_badstr_def ns_hook_def
      idle_def)

text \<open>
  C5, amended: take the names that \<open>dir\<close> lists for the loaded unit (the sorted names of
  its namespace or, when the unit binds \<open>__dir__\<close>, the sorted result of that function)
  and among them those that start with \<open>test_\<close>, N of them. Provided that each of these
  names is bound in the unit, that the call of its attribute with no arguments returns or
  raises an \<open>Exception\<close> whose \<open>str\<close> returns, and that the call neither deletes nor
  rebinds a name starting with \<open>test_\<close>, and that \<open>dir\<close> lists no name twice,
  \<open>execute\<close> returns exactly N outcomes, by ascending name; each attribute is called once
  with no arguments, in that order; one that
  raises (a non-callable raises \<open>TypeError\<close>) is recorded as \<open>(name, failed, message)\<close> with
  the exception's message and the loop goes on; one that returns is recorded as
  \<open>(name, passed, none)\<close> whatever it returns. In a unit that binds no \<open>__dir__\<close> the names
  are distinct and N is the number of names of the namespace that start with \<open>test_\<close>,
  callable or not.
\<close>

theorem execute_outcomes:
  assumes "dir_module m = (Inr names, m1)"
    and "\<forall>n\<in>set names. prefix ''test_'' n \<longrightarrow>
           (\<exists>a. getattr m1 n = Inr a \<and> recorded (snd (call_no_args a)) \<and> steady a)"
    and "distinct names"
  shows "fst (execute m w) = Inr (map (\<lambda>n. outcome_line (outcome_of m1 n)) (test_names m))
       \<and> events (snd (execute m w)) = events w @ map CallTest (test_names m)
       \<and> test_names m = filter (prefix ''test_'') names
       \<and> sorted (test_names m) \<and> distinct (test_names m)
       \<and> (map_of (namespace m) ''__dir__'' = None \<longrightarrow>
            m1 = m
            \<and> length (test_names m) = card {n \<in> fst ` set (namespace m). prefix ''test_'' n})"
proof -
  from assms(1) have tn: "test_names m = filter (prefix ''test_'') names"
    by (simp add: test_names_def)
  from run_tests_steady [OF assms(2), of "[]" "register_module m1 w"] obtain w' where
    "run_tests m1 names [] (register_module m1 w) =
       (Inr (map (\<lambda>n. outcome_line (outcome_of m1 n)) (filter (prefix ''test_'') names)), w')"
    by auto
  with assms(1) tn
  have ex: "execute m w = (Inr (map (\<lambda>n. outcome_line (outcome_of m1 n)) (test_names m)), w')"
    by (simp add: execute_def)
  from execute_returns [OF ex]
  have ev: "events (snd (execute m w)) = events w @ map CallTest (test_names m)"
    by (simp add: ex)
  have plain: "map_of (namespace m) ''__dir__'' = None \<longrightarrow>
            m1 = m
            \<and> length (test_names m) = card {n \<in> fst ` set (namespace m). prefix ''test_'' n}"
  proof
    assume none: "map_of (namespace m) ''__dir__'' = None"
    from dir_module_plain [OF none] assms(1) have "m1 = m" by simp
    with test_names_plain(3) [OF none]
    show "m1 = m
            \<and> length (test_names m) = card {n \<in> fst ` set (namespace m). prefix ''test_'' n}"
      by simp
  qed
  from assms(3) tn have "distinct (test_names m)" by simp
  with ex ev tn test_names_sorted [of m] plain show ?thesis by simp
qed

theorem execute_outcomes_witness:
  "test_names \<lparr>mod_file = ''mixed.py'', namespace = ns_mixed\<rparr> =
       [''test_a'', ''test_limit'', ''test_z'']
   \<and> fst (execute \<lparr>mod_file = ''mixed.py'', namespace = ns_mixed\<rparr> idle) =
       Inr (map outcome_line
              [(''test_a'', Failed, Some ''bad value''),
               (''test_limit'', Failed, Some (quote ''int'' @ '' object is not callable'')),
               (''test_z'', Passed, None)])
   \<and> events (snd (execute \<lparr>mod_file = ''mixed.py'', namespace = ns_mixed\<rparr> idle)) =
       [CallTest ''test_a'', CallTest ''test_limit'', CallTest ''test_z'']
   \<and> fst (execute \<lparr>mod_file = ''setter.py'', namespace = ns_setter\<rparr> idle) =
       Inr (map outcome_line
              [(''test_a'', Passed, None), (''test_b'', Failed, Some ''bad value'')])"
proof -
  let ?m = "\<lparr>mod_file = ''mixed.py'', namespace = ns_mixed\<rparr>"
  let ?s = "\<lparr>mod_file = ''setter.py'', namespace = ns_setter\<rparr>"
  have d: "dir_module ?m = (Inr [''helper'', ''test_a'', ''test_limit'', ''test_z''], ?m)"
    by (simp add: dir_module_def ns_mixed_def)
  have hyp: "\<forall>n\<in>set [''helper'', ''test_a'', ''test_limit'', ''test_z'']. prefix ''test_'' n \<longrightarrow>
           (\<exists>a. getattr ?m n = Inr a \<and> recorded (snd (call_no_args a)) \<and> steady a)"
    by (simp add: getattr_def ns_mixed_def steady_def)
  have names: "test_names ?m = [''test_a'', ''test_limit'', ''test_z'']"
    by (simp add: test_names_def d)
  have out: "map (\<lambda>n. outcome_line (outcome_of ?m n)) (test_names ?m) =
      map outcome_line
              [(''test_a'', Failed, Some ''bad value''),
               (''test_limit'', Failed, Some (quote ''int'' @ '' object is not callable'')),
               (''test_z'', Passed, None)]"
    by (simp add: names) (simp add: outcome_of_def ns_mixed_def)
  have ds: "dir_module ?s = (Inr [''test_a'', ''test_b''], ?s)"
    by (simp add: dir_module_def ns_setter_def)
  have hyps: "\<forall>n\<in>set [''test_a'', ''test_b'']. prefix ''test_'' n \<longrightarrow>
           (\<exists>a. getattr ?s n = Inr a \<and> recorded (snd (call_no_args a)) \<and> steady a)"
    by (simp add: getattr_def ns_setter_def steady_def)
  have outs: "map (\<lambda>n. outcome_line (outcome_of ?s n)) (test_names ?s) =
      map outcome_line
              [(''test_a'', Passed, None), (''test_b'', Failed, Some ''bad value'')]"
    by (simp add: test_names_def ds) (simp add: outcome_of_def ns_setter_def)
  have dist: "distinct [''helper'', ''test_a'', ''test_limit'', ''test_z'']"
    "distinct [''test_a'', ''test_b'']"
    by simp_all
  from execute_outcomes [OF d hyp dist(1), of idle] names out
  have a: "fst (execute ?m idle) =
       Inr (map outcome_line
              [(''test_a'', Failed, Some ''bad value''),
               (''test_limit'', Failed, Some (quote ''int'' @ '' object is not callable'')),
               (''test_z'', Passed, None)])"
    and b: "events (snd (execute ?m idle)) =
       [CallTest ''test_a'', CallTest ''test_limit'', CallTest ''test_z'']"
    by (simp_all add: idle_def)
  from execute_outcomes [OF ds hyps dist(2), of idle] outs
  have c: "fst (execute ?s idle) =
       Inr (map outcome_line
              [(''test_a'', Passed, None), (''test_b'', Failed, Some ''bad value'')])"
    by simp
  from names a b c show ?thesis by (intro conjI)
qed

section \<open>The example unit and the overall status\<close>

text \<open>
  C3, as stated: for the unit that defines \<open>test_ok\<close> (returns) and \<open>test_fail\<close> (raises
  \<open>AssertionError("x")\<close>), \<open>execute\<close> returns the outcome of \<open>test_ok\<close> first. It
  does not: \<open>dir\<close> lists the names in ascending order, and \<open>test_fail\<close> comes before
  \<open>test_ok\<close>.
\<close>

theorem execute_ok_fail_order_counterexample:
  "fst (execute \<lparr>mod_file = ''ok_fail.py'', namespace = ns_ok_fail\<rparr> idle) \<noteq>
     Inr (map outcome_line [(''test_ok'', Passed, None), (''test_fail'', Failed, Some ''x'')])"
  by (simp add: run_eval ns_ok_fail_def)

text \<open>
  C3, amended: for that unit \<open>execute\<close> returns exactly
  \<open>[("test_fail", failed, "x"), ("test_ok", passed, none)]\<close>, the outcome of \<open>test_fail\<close>
  first, and the status of the resulting record is \<open>FAILED\<close>.
\<close>

theorem execute_ok_fail:
  assumes "files path = Defines ns_ok_fail"
  shows "fst (execute \<lparr>mod_file = path, namespace = ns_ok_fail\<rparr> w) =
           Inr (map outcome_line [(''test_fail'', Failed, Some ''x''), (''test_ok'', Passed, None)])
       \<and> fst (run_test_with_profiling files rd w path) =
           Inr (build_record rd path
                  (map outcome_line
                     [(''test_fail'', Failed, Some ''x''), (''test_ok'', Passed, None)]))
       \<and> test_status (build_record rd path
                  (map outcome_line
                     [(''test_fail'', Failed, Some ''x''), (''test_ok'', Passed, None)])) = ''FAILED''"
proof -
  have "fst (execute \<lparr>mod_file = path, namespace = ns_ok_fail\<rparr> w) =
           Inr (map outcome_line [(''test_fail'', Failed, Some ''x''), (''test_ok'', Passed, None)])"
    by (simp add: run_eval ns_ok_fail_def)
  moreover have "fst (run_test_with_profiling files rd w path) =
           Inr (build_record rd path
                  (map outcome_line
                     [(''test_fail'', Failed, Some ''x''), (''test_ok'', Passed, None)]))"
    using assms by (simp add: run_eval ns_ok_fail_def)
  moreover have "test_status (build_record rd path
                  (map outcome_line
                     [(''test_fail'', Failed, Some ''x''), (''test_ok'', Passed, None)])) = ''FAILED''"
    by (simp add: test_status_def build_record_def lower_def lower_char_def sublist_Cons_right)
  ultimately show ?thesis by blast
qed

theorem execute_ok_fail_witness:
  "sample_files ''ok_fail.py'' = Defines ns_ok_fail
   \<and> test_output (build_record sample_readings ''ok_fail.py''
        (map outcome_line [(''test_fail'', Failed, Some ''x''), (''test_ok'', Passed, None)])) =
       ''Test test_fail failed: x'' @ [CHR 0x0A] @ ''Test test_ok passed''
   \<and> fst (run_test_with_profiling sample_files sample_readings idle ''ok_fail.py'') =
           Inr (build_record sample_readings ''ok_fail.py''
                  (map outcome_line
                     [(''test_fail'', Failed, Some ''x''), (''test_ok'', Passed, None)]))
   \<and> test_status (build_record sample_readings ''ok_fail.py''
                  (map outcome_line
                     [(''test_fail'', Failed, Some ''x''), (''test_ok'', Passed, None)])) = ''FAILED''"
proof -
  have h: "sample_files ''ok_fail.py'' = Defines ns_ok_fail"
    by (simp add: sample_files_def)
  have "test_output (build_record sample_readings ''ok_fail.py''
        (map outcome_line [(''test_fail'', Failed, Some ''x''), (''test_ok'', Passed, None)])) =
       ''Test test_fail failed: x'' @ [CHR 0x0A] @ ''Test test_ok passed''"
    by (simp add: build_record_def)
  with h execute_ok_fail [where files = sample_files and path = "''ok_fail.py''"
      and w = idle and rd = sample_readings]
  show ?thesis by blast
qed

text \<open>
  One half of the overall status holds in the code: a failed outcome writes the word
  \<open>failed\<close> into \<open>test_output\<close>, so the status shown is \<open>FAILED\<close>.
\<close>

lemma lower_append: "lower (a @ b) = lower a @ lower b"
  by (simp add: lower_def)

lemma join_member:
  "l \<in> set ls \<Longrightarrow> \<exists>ps ss. join sep ls = ps @ l @ ss"
proof (induction sep ls rule: join.induct)
  case (1 sep)
  then show ?case by simp
next
  case (2 sep x)
  then have "join sep [x] = [] @ l @ []" by simp
  then show ?case by blast
next
  case (3 sep x y ys)
  show ?case
  proof (cases "l = x")
    case True
    then have "join sep (x # y # ys) = [] @ l @ (sep @ join sep (y # ys))" by simp
    then show ?thesis by blast
  next
    case False
    with 3 obtain ps ss where "join sep (y # ys) = ps @ l @ ss" by auto
    then have "join sep (x # y # ys) = (x @ sep @ ps) @ l @ ss" by simp
    then show ?thesis by blast
  qed
qed

lemma lower_failed_line:
  "\<exists>a b. lower (outcome_line (name, Failed, detail)) = a @ ''failed'' @ b"
proof -
  have "lower '' failed: '' = '' '' @ ''failed'' @ '': ''"
    by (simp add: lower_def lower_char_def)
  then have "lower (outcome_line (name, Failed, detail)) =
      (lower (''Test '' @ name) @ '' '') @ ''failed''
        @ ('': '' @ lower (case detail of None \<Rightarrow> [] | Some msg \<Rightarrow> msg))"
    by (simp add: lower_append del: append.simps)
  then show ?thesis by blast
qed

lemma failed_outcome_status:
  assumes "(name, Failed, detail) \<in> set outs"
  shows "test_status (build_record rd path (map outcome_line outs)) = ''FAILED''"
proof -
  from assms have "outcome_line (name, Failed, detail) \<in> set (map outcome_line outs)"
    unfolding set_map by (rule imageI)
  from join_member [OF this] obtain ps ss where
    j: "join [CHR 0x0A] (map outcome_line outs) = ps @ outcome_line (name, Failed, detail) @ ss"
    by blast
  from lower_failed_line obtain a b where
    l: "lower (outcome_line (name, Failed, detail)) = a @ ''failed'' @ b" by blast
  have "lower (join [CHR 0x0A] (map outcome_line outs)) =
          (lower ps @ a) @ ''failed'' @ (b @ lower ss)"
    by (simp only: j lower_append l append_assoc)
  then have "sublist ''failed'' (lower (join [CHR 0x0A] (map outcome_line outs)))"
    by (simp only: sublist_appendI)
  then show ?thesis by (simp add: test_status_def build_record_def)
qed

text \<open>
  C4: the overall status is failed exactly when some outcome is failed, whatever the
  names of the tests. The code reads the status off the text of \<open>test_output\<close>, which
  holds the test names too: a unit whose only test, \<open>test_failed_login\<close>, passes has
  no failed outcome, and its status is \<open>FAILED\<close>.
\<close>

theorem test_status_of_passing_test_named_failed:
  "fst (run_test_with_profiling sample_files sample_readings idle ''named.py'') =
     Inr (build_record sample_readings ''named.py''
            (map outcome_line [(''test_failed_login'', Passed, None)]))
   \<and> test_status (build_record sample_readings ''named.py''
            (map outcome_line [(''test_failed_login'', Passed, None)])) = ''FAILED''
   \<and> format_profiling_results fmt2 (build_record sample_readings ''named.py''
            (map outcome_line [(''test_failed_login'', Passed, None)])) =
       ''=== Quick Profiling Summary ==='' @ [CHR 0x0A] @
       ''Execution Time: '' @ fmt2 2 @ ''s | Memory: '' @ fmt2 2 @ ''MB peak'' @ [CHR 0x0A] @
       ''Test Status: FAILED''"
proof -
  have "fst (run_test_with_profiling sample_files sample_readings idle ''named.py'') =
     Inr (build_record sample_readings ''named.py''
            (map outcome_line [(''test_failed_login'', Passed, None)]))"
    by (simp add: run_eval sample_files_def ns_named_def)
  moreover have st: "test_status (build_record sample_readings ''named.py''
            (map outcome_line [(''test_failed_login'', Passed, None)])) = ''FAILED''"
    by (simp add: test_status_def build_record_def lower_def lower_char_def sublist_Cons_right)
  moreover have "format_profiling_results fmt2 (build_record sample_readings ''named.py''
            (map outcome_line [(''test_failed_login'', Passed, None)])) =
       ''=== Quick Profiling Summary ==='' @ [CHR 0x0A] @
       ''Execution Time: '' @ fmt2 2 @ ''s | Memory: '' @ fmt2 2 @ ''MB peak'' @ [CHR 0x0A] @
       ''Test Status: FAILED''"
    unfolding format_profiling_results_def st
    by (simp add: build_record_def sample_readings_def)
  ultimately show ?thesis by blast
qed

section \<open>What a run that returns has done\<close>


lemma run_returns:
  assumes "run_test_with_profiling files rd w path = (Inr pd, w')"
  shows "\<exists>ns out. files path = Defines ns
       \<and> pd = build_record rd path out
       \<and> (\<forall>v. fst (execute \<lparr>mod_file = path, namespace = ns\<rparr> v) = Inr out)
       \<and> list_all2 (\<lambda>n l. prefix (''Test '' @ n @ '' '') l)
            (test_names \<lparr>mod_file = path, namespace = ns\<rparr>) out
       \<and> (steady_tests \<lparr>mod_file = path, namespace = ns\<rparr> \<longrightarrow>
            out = outcome_lines \<lparr>mod_file = path, namespace = ns\<rparr>)
       \<and> events w' = events w @ [TracemallocStart, ExecModule path, ProfilerEnable, ReadClock]
           @ map CallTest (test_names \<lparr>mod_file = path, namespace = ns\<rparr>)
           @ [ReadClock, ProfilerDisable, GetTracedMemory, TracemallocStop, PrintStats]"
proof (cases "files path")
  case NoLoader
  with assms show ?thesis by (simp add: run_test_with_profiling_def)
next
  case (ExecRaises e ns)
  with assms show ?thesis by (simp add: run_test_with_profiling_def)
next
  case (Defines ns)
  define m where "m = \<lparr>mod_file = path, namespace = ns\<rparr>"
  define w4 where "w4 = log_event ReadClock (log_event ProfilerEnable
      ((log_event (ExecModule path) (register_module m
         (log_event TracemallocStart (w\<lparr>tracing := True\<rparr>))))\<lparr>profiling := True\<rparr>))"
  obtain r5 w5 where r5: "execute m w4 = (r5, w5)" by (cases "execute m w4")
  have ev4: "events w4 = events w @ [TracemallocStart, ExecModule path, ProfilerEnable, ReadClock]"
    by (simp add: w4_def)
  show ?thesis
  proof (cases r5)
    case (Inl e)
    with assms Defines r5 show ?thesis
      by (simp add: run_test_with_profiling_def Let_def m_def w4_def)
  next
    case (Inr out)
    note ex = r5 [unfolded Inr]
    from execute_returns [OF ex]
    have l: "list_all2 (\<lambda>n l. prefix (''Test '' @ n @ '' '') l) (test_names m) out"
      and ev5: "events w5 = events w4 @ map CallTest (test_names m)"
      and st: "steady_tests m \<longrightarrow> out = outcome_lines m"
      by simp_all
    have any: "\<forall>v. fst (execute m v) = Inr out"
    proof
      fix v
      from execute_any_world [of m v w4] ex show "fst (execute m v) = Inr out" by simp
    qed
    from assms Defines r5 Inr
    have pd: "pd = build_record rd path out"
      and w': "w' = log_event PrintStats (log_event TracemallocStop
                 ((log_event GetTracedMemory (log_event ProfilerDisable
                    ((log_event ReadClock w5)\<lparr>profiling := False\<rparr>)))\<lparr>tracing := False\<rparr>))"
      by (simp_all add: run_test_with_profiling_def Let_def m_def w4_def)
    have "events w' = events w @ [TracemallocStart, ExecModule path, ProfilerEnable, ReadClock]
           @ map CallTest (test_names m)
           @ [ReadClock, ProfilerDisable, GetTracedMemory, TracemallocStop, PrintStats]"
      by (simp add: w' ev5 ev4)
    with Defines pd any l st show ?thesis unfolding m_def by blast
  qed
qed


section \<open>The order of the session's steps\<close>

text \<open>
  C7, as stated: memory tracing starts, CPU profiling starts, the start time is read, the
  work is invoked, the end time is read, CPU profiling stops and the stats are extracted,
  memory is read and tracing stops, with nothing else inside either window. The code
  loads and executes the module after memory tracing has started and before CPU profiling
  starts, and prints the stats after memory tracing has stopped: the memory window holds
  the module's execution, the CPU window does not.
\<close>

theorem session_order_counterexample:
  "events (snd (run_test_with_profiling sample_files sample_readings idle ''ok_fail.py'')) =
     [TracemallocStart, ExecModule ''ok_fail.py'', ProfilerEnable, ReadClock,
      CallTest ''test_fail'', CallTest ''test_ok'',
      ReadClock, ProfilerDisable, GetTracedMemory, TracemallocStop, PrintStats]
   \<and> events (snd (run_test_with_profiling sample_files sample_readings idle ''ok_fail.py'')) \<noteq>
       spec_session_order [CallTest ''test_fail'', CallTest ''test_ok'']
   \<and> events (snd (run_test_with_profiling sample_files sample_readings idle ''ok_fail.py'')) \<noteq>
       spec_session_order [ExecModule ''ok_fail.py'', CallTest ''test_fail'', CallTest ''test_ok'']
   \<and> window TracemallocStart TracemallocStop
         (events (snd (run_test_with_profiling sample_files sample_readings idle ''ok_fail.py''))) =
       [ExecModule ''ok_fail.py'', ProfilerEnable, ReadClock,
        CallTest ''test_fail'', CallTest ''test_ok'', ReadClock, ProfilerDisable, GetTracedMemory]
   \<and> window ProfilerEnable ProfilerDisable
         (events (snd (run_test_with_profiling sample_files sample_readings idle ''ok_fail.py''))) =
       [ReadClock, CallTest ''test_fail'', CallTest ''test_ok'', ReadClock]"
proof -
  have "events (snd (run_test_with_profiling sample_files sample_readings idle ''ok_fail.py'')) =
     [TracemallocStart, ExecModule ''ok_fail.py'', ProfilerEnable, ReadClock,
      CallTest ''test_fail'', CallTest ''test_ok'',
      ReadClock, ProfilerDisable, GetTracedMemory, TracemallocStop, PrintStats]"
    by (simp add: run_eval sample_files_def ns_ok_fail_def idle_def)
  then show ?thesis by (simp add: spec_session_order_def window_def)
qed

text \<open>
  C7, amended: a session that returns has performed, in this order: start memory tracing,
  load and execute the module, start CPU profiling, read the start time, call the tests,
  read the end time, stop CPU profiling, read the traced memory, stop memory tracing,
  print the stats. The memory-tracing window holds the module's execution and the whole
  CPU-profiling window; the CPU-profiling window holds the two clock readings and the
  test calls, and nothing else.
\<close>

theorem session_order_of_run:
  assumes "run_test_with_profiling files rd w path = (Inr pd, w')"
  shows "\<exists>ns calls. files path = Defines ns
       \<and> calls = map CallTest (test_names \<lparr>mod_file = path, namespace = ns\<rparr>)
       \<and> events w' = events w @ [TracemallocStart, ExecModule path, ProfilerEnable, ReadClock]
           @ calls @ [ReadClock, ProfilerDisable, GetTracedMemory, TracemallocStop, PrintStats]
       \<and> window TracemallocStart TracemallocStop
            ([TracemallocStart, ExecModule path, ProfilerEnable, ReadClock]
              @ calls @ [ReadClock, ProfilerDisable, GetTracedMemory, TracemallocStop, PrintStats]) =
           [ExecModule path, ProfilerEnable, ReadClock] @ calls
             @ [ReadClock, ProfilerDisable, GetTracedMemory]
       \<and> window ProfilerEnable ProfilerDisable
            ([TracemallocStart, ExecModule path, ProfilerEnable, ReadClock]
              @ calls @ [ReadClock, ProfilerDisable, GetTracedMemory, TracemallocStop, PrintStats]) =
           [ReadClock] @ calls @ [ReadClock]"
proof -
  from run_returns [OF assms] obtain ns where
    ns: "files path = Defines ns"
    and ev: "events w' = events w @ [TracemallocStart, ExecModule path, ProfilerEnable, ReadClock]
           @ map CallTest (test_names \<lparr>mod_file = path, namespace = ns\<rparr>)
           @ [ReadClock, ProfilerDisable, GetTracedMemory, TracemallocStop, PrintStats]"
    by blast
  define calls where "calls = map CallTest (test_names \<lparr>mod_file = path, namespace = ns\<rparr>)"
  have c1: "\<And>e. e \<in> set calls \<Longrightarrow> e \<noteq> TracemallocStop" by (auto simp: calls_def)
  have c2: "\<And>e. e \<in> set calls \<Longrightarrow> e \<noteq> ProfilerDisable" by (auto simp: calls_def)
  have w1: "window TracemallocStart TracemallocStop
            ([TracemallocStart, ExecModule path, ProfilerEnable, ReadClock]
              @ calls @ [ReadClock, ProfilerDisable, GetTracedMemory, TracemallocStop, PrintStats]) =
           [ExecModule path, ProfilerEnable, ReadClock] @ calls
             @ [ReadClock, ProfilerDisable, GetTracedMemory]"
    using c1 by (simp add: window_def takeWhile_append2)
  have w2: "window ProfilerEnable ProfilerDisable
            ([TracemallocStart, ExecModule path, ProfilerEnable, ReadClock]
              @ calls @ [ReadClock, ProfilerDisable, GetTracedMemory, TracemallocStop, PrintStats]) =
           [ReadClock] @ calls @ [ReadClock]"
    using c2 by (simp add: window_def takeWhile_append2)
  from ns calls_def ev [folded calls_def] w1 w2
  have "files path = Defines ns
       \<and> calls = map CallTest (test_names \<lparr>mod_file = path, namespace = ns\<rparr>)
       \<and> events w' = events w @ [TracemallocStart, ExecModule path, ProfilerEnable, ReadClock]
           @ calls @ [ReadClock, ProfilerDisable, GetTracedMemory, TracemallocStop, PrintStats]
       \<and> window TracemallocStart TracemallocStop
            ([TracemallocStart, ExecModule path, ProfilerEnable, ReadClock]
              @ calls @ [ReadClock, ProfilerDisable, GetTracedMemory, TracemallocStop, PrintStats]) =
           [ExecModule path, ProfilerEnable, ReadClock] @ calls
             @ [ReadClock, ProfilerDisable, GetTracedMemory]
       \<and> window ProfilerEnable ProfilerDisable
            ([TracemallocStart, ExecModule path, ProfilerEnable, ReadClock]
              @ calls @ [ReadClock, ProfilerDisable, GetTracedMemory, TracemallocStop, PrintStats]) =
           [ReadClock] @ calls @ [ReadClock]"
    by (intro conjI)
  then show ?thesis by (intro exI)
qed

theorem session_order_of_run_witness:
  "run_test_with_profiling sample_files sample_readings idle ''mixed.py'' =
     (Inr (build_record sample_readings ''mixed.py''
            [''Test test_a failed: bad value'',
             ''Test test_limit failed: '' @ quote ''int'' @ '' object is not callable'',
             ''Test test_z passed'']),
      \<lparr>tracing = False, profiling = False,
       sys_modules = [''test_module'' \<mapsto> \<lparr>mod_file = ''mixed.py'', namespace = ns_mixed\<rparr>],
       events = [TracemallocStart, ExecModule ''mixed.py'', ProfilerEnable, ReadClock,
                 CallTest ''test_a'', CallTest ''test_limit'', CallTest ''test_z'',
                 ReadClock, ProfilerDisable, GetTracedMemory, TracemallocStop, PrintStats]\<rparr>)
   \<and> (\<exists>ns calls. sample_files ''mixed.py'' = Defines ns
        \<and> calls = map CallTest (test_names \<lparr>mod_file = ''mixed.py'', namespace = ns\<rparr>)
        \<and> window ProfilerEnable ProfilerDisable
            ([TracemallocStart, ExecModule ''mixed.py'', ProfilerEnable, ReadClock]
              @ calls @ [ReadClock, ProfilerDisable, GetTracedMemory, TracemallocStop, PrintStats]) =
           [ReadClock] @ calls @ [ReadClock])"
proof -
  have run: "run_test_with_profiling sample_files sample_readings idle ''mixed.py'' =
     (Inr (build_record sample_readings ''mixed.py''
            [''Test test_a failed: bad value'',
             ''Test test_limit failed: '' @ quote ''int'' @ '' object is not callable'',
             ''Test test_z passed'']),
      \<lparr>tracing = False, profiling = False,
       sys_modules = [''test_module'' \<mapsto> \<lparr>mod_file = ''mixed.py'', namespace = ns_mixed\<rparr>],
       events = [TracemallocStart, ExecModule ''mixed.py'', ProfilerEnable, ReadClock,
                 CallTest ''test_a'', CallTest ''test_limit'', CallTest ''test_z'',
                 ReadClock, ProfilerDisable, GetTracedMemory, TracemallocStop, PrintStats]\<rparr>)"
    by (simp add: run_eval sample_files_def ns_mixed_def idle_def)
  from session_order_of_run [OF run] obtain ns calls where
    "sample_files ''mixed.py'' = Defines ns"
    "calls = map CallTest (test_names \<lparr>mod_file = ''mixed.py'', namespace = ns\<rparr>)"
    "window ProfilerEnable ProfilerDisable
            ([TracemallocStart, ExecModule ''mixed.py'', ProfilerEnable, ReadClock]
              @ calls @ [ReadClock, ProfilerDisable, GetTracedMemory, TracemallocStop, PrintStats]) =
           [ReadClock] @ calls @ [ReadClock]"
    by (elim exE conjE)
  then have "sample_files ''mixed.py'' = Defines ns
        \<and> calls = map CallTest (test_names \<lparr>mod_file = ''mixed.py'', namespace = ns\<rparr>)
        \<and> window ProfilerEnable ProfilerDisable
            ([TracemallocStart, ExecModule ''mixed.py'', ProfilerEnable, ReadClock]
              @ calls @ [ReadClock, ProfilerDisable, GetTracedMemory, TracemallocStop, PrintStats]) =
           [ReadClock] @ calls @ [ReadClock]"
    by (intro conjI)
  then have "\<exists>ns calls. sample_files ''mixed.py'' = Defines ns
        \<and> calls = map CallTest (test_names \<lparr>mod_file = ''mixed.py'', namespace = ns\<rparr>)
        \<and> window ProfilerEnable ProfilerDisable
            ([TracemallocStart, ExecModule ''mixed.py'', ProfilerEnable, ReadClock]
              @ calls @ [ReadClock, ProfilerDisable, GetTracedMemory, TracemallocStop, PrintStats]) =
           [ReadClock] @ calls @ [ReadClock]"
    by (intro exI)
  with run show ?thesis by (intro conjI)
qed

section \<open>The two runs of a comparison\<close>








section \<open>The shared module table and the order of discovery\<close>



section \<open>The history store\<close>

lemma zip_points:
  "zip (map timestamp hs) (zip (map execution_time hs) (map memory_peak hs)) = map point hs"
  by (induction hs) (simp_all add: point_def)

lemma plot_points:
  assumes "hf \<noteq> Malformed"
  shows "\<exists>res. plot_performance_history hf path = Inr res
           \<and> plotted res = map point (test_history (stored hf) path)
           \<and> (test_history (stored hf) path = [] \<longrightarrow> snd res = None)
           \<and> (hf = Absent \<longrightarrow> res = (''No history data available'', None))"
proof (cases hf)
  case Absent
  then show ?thesis by (simp add: plot_performance_history_def test_history_def)
next
  case Malformed
  with assms show ?thesis by simp
next
  case (Stored history)
  show ?thesis
  proof (cases "test_history history path = []")
    case True
    with Stored show ?thesis by (simp add: plot_performance_history_def)
  next
    case False
    with Stored show ?thesis
      by (simp add: plot_performance_history_def Let_def zip_points)
  qed
qed

lemma test_history_append:
  "test_history (xs @ ys) path = test_history xs path @ test_history ys path"
  by (simp add: test_history_def)

lemma test_history_all:
  "\<forall>r\<in>set rs. test_file r = path \<Longrightarrow> test_history rs path = rs"
  by (simp add: test_history_def)

lemma save_to_history_stored:
  "save_to_history hf r = Inr hf1 \<Longrightarrow> hf \<noteq> Malformed \<and> hf1 = Stored (stored hf @ [r])"
  by (cases hf) (auto simp: save_to_history_def)

lemma save_all_stored:
  "hf \<noteq> Malformed \<Longrightarrow>
     \<exists>hfK. save_all hf rs = Inr hfK \<and> hfK \<noteq> Malformed \<and> stored hfK = stored hf @ rs"
proof (induction rs arbitrary: hf)
  case Nil
  then show ?case by simp
next
  case (Cons r rs)
  from Cons.prems obtain hf1 where
    s: "save_to_history hf r = Inr hf1" and hf1: "hf1 = Stored (stored hf @ [r])"
    by (cases hf) (auto simp: save_to_history_def)
  from hf1 have "hf1 \<noteq> Malformed" by simp
  from Cons.IH [OF this] obtain hfK where
    "save_all hf1 rs = Inr hfK" "hfK \<noteq> Malformed" "stored hfK = stored hf1 @ rs" by blast
  with s hf1 show ?case by simp
qed

text \<open>
  C6: a record appended by \<open>save_to_history\<close> is the last of the entries that the query
  of line 177 selects for its path; K records appended for one path are selected after
  the entries the file held for that path, in the order of the appends, and all the
  earlier entries of the file are kept; the figure of \<open>plot_performance_history\<close> has
  exactly these points. An append to a file that \<open>json.load\<close> rejects raises instead.
\<close>

theorem history_round_trip:
  assumes "hf \<noteq> Malformed" and "\<forall>r\<in>set rs. test_file r = path"
  shows "(\<forall>r hf1. save_to_history hf r = Inr hf1 \<longrightarrow>
            stored hf1 = stored hf @ [r]
          \<and> test_history (stored hf1) (test_file r) = test_history (stored hf) (test_file r) @ [r]
          \<and> last (test_history (stored hf1) (test_file r)) = r)
       \<and> (\<exists>hfK. save_all hf rs = Inr hfK
          \<and> stored hfK = stored hf @ rs
          \<and> test_history (stored hfK) path = test_history (stored hf) path @ rs
          \<and> (test_history (stored hf) path = [] \<longrightarrow> test_history (stored hfK) path = rs)
          \<and> (\<exists>res. plot_performance_history hfK path = Inr res
                \<and> plotted res = map point (test_history (stored hf) path @ rs)))"
proof (intro conjI allI impI)
  fix r hf1
  assume s: "save_to_history hf r = Inr hf1"
  from save_to_history_stored [OF s] show st: "stored hf1 = stored hf @ [r]" by simp
  then show th: "test_history (stored hf1) (test_file r) =
      test_history (stored hf) (test_file r) @ [r]"
    by (simp add: test_history_def)
  then show "last (test_history (stored hf1) (test_file r)) = r" by simp
next
  from save_all_stored [OF assms(1), of rs] obtain hfK where
    k: "save_all hf rs = Inr hfK" "hfK \<noteq> Malformed" "stored hfK = stored hf @ rs" by blast
  from k(3) assms(2)
  have th: "test_history (stored hfK) path = test_history (stored hf) path @ rs"
    by (simp add: test_history_append test_history_all)
  from plot_points [OF k(2), of path] th obtain res where
    "plot_performance_history hfK path = Inr res"
    "plotted res = map point (test_history (stored hf) path @ rs)"
    by auto
  note pl = this
  from k(1) have "save_all hf rs = Inr hfK" .
  moreover from k(3) have "stored hfK = stored hf @ rs" .
  moreover note th pl
  moreover from th
  have "test_history (stored hf) path = [] \<longrightarrow> test_history (stored hfK) path = rs"
    by simp
  ultimately show "\<exists>hfK. save_all hf rs = Inr hfK
          \<and> stored hfK = stored hf @ rs
          \<and> test_history (stored hfK) path = test_history (stored hf) path @ rs
          \<and> (test_history (stored hf) path = [] \<longrightarrow> test_history (stored hfK) path = rs)
          \<and> (\<exists>res. plot_performance_history hfK path = Inr res
                \<and> plotted res = map point (test_history (stored hf) path @ rs))"
    by blast
qed

theorem history_round_trip_witness:
  "save_to_history (Stored [record_b]) record_a1 = Inr (Stored [record_b, record_a1])
   \<and> last (test_history [record_b, record_a1] ''a.py'') = record_a1
   \<and> save_all (Stored [record_b]) [record_a1, record_a2] =
       Inr (Stored [record_b, record_a1, record_a2])
   \<and> test_history [record_b, record_a1, record_a2] ''a.py'' = [record_a1, record_a2]
   \<and> (\<exists>res. plot_performance_history (Stored [record_b, record_a1, record_a2]) ''a.py'' = Inr res
         \<and> plotted res = [(''2024-05-01T12:00:00'', 2, 2), (''2024-05-01T12:00:05'', 1, 1)])"
proof -
  have h1: "Stored [record_b] \<noteq> Malformed" by simp
  have h2: "\<forall>r\<in>set [record_a1, record_a2]. test_file r = ''a.py''"
    by (simp add: record_a1_def record_a2_def build_record_def)
  have tb: "test_history [record_b] ''a.py'' = []"
    by (simp add: test_history_def record_b_def build_record_def)
  have s1: "save_to_history (Stored [record_b]) record_a1 = Inr (Stored [record_b, record_a1])"
    by (simp add: save_to_history_def)
  have sK: "save_all (Stored [record_b]) [record_a1, record_a2] =
       Inr (Stored [record_b, record_a1, record_a2])"
    by (simp add: save_to_history_def)
  have p1: "test_file record_a1 = ''a.py''" by (simp add: record_a1_def build_record_def)
  have pts: "point record_a1 = (''2024-05-01T12:00:00'', 2, 2)"
    "point record_a2 = (''2024-05-01T12:00:05'', 1, 1)"
    by (simp_all add: point_def record_a1_def record_a2_def build_record_def sample_readings_def
        later_readings_def)
  note inst = history_round_trip [OF h1 h2]
  from inst have "\<forall>r hf1. save_to_history (Stored [record_b]) r = Inr hf1 \<longrightarrow>
            stored hf1 = stored (Stored [record_b]) @ [r]
          \<and> test_history (stored hf1) (test_file r) =
              test_history (stored (Stored [record_b])) (test_file r) @ [r]
          \<and> last (test_history (stored hf1) (test_file r)) = r"
    by (rule conjunct1)
  from this [rule_format, OF s1]
  have a: "last (test_history [record_b, record_a1] ''a.py'') = record_a1"
    by (simp add: p1)
  from inst [THEN conjunct2] obtain hfK where
    k: "save_all (Stored [record_b]) [record_a1, record_a2] = Inr hfK"
    and th: "test_history (stored hfK) ''a.py'' =
        test_history (stored (Stored [record_b])) ''a.py'' @ [record_a1, record_a2]"
    and pl: "\<exists>res. plot_performance_history hfK ''a.py'' = Inr res
        \<and> plotted res = map point (test_history (stored (Stored [record_b])) ''a.py''
                            @ [record_a1, record_a2])"
    by blast
  from k sK have hfK: "hfK = Stored [record_b, record_a1, record_a2]" by simp
  from th have b: "test_history [record_b, record_a1, record_a2] ''a.py'' = [record_a1, record_a2]"
    by (simp add: hfK tb)
  from pl have c: "\<exists>res. plot_performance_history (Stored [record_b, record_a1, record_a2]) ''a.py''
          = Inr res
         \<and> plotted res = [(''2024-05-01T12:00:00'', 2, 2), (''2024-05-01T12:00:05'', 1, 1)]"
    by (simp add: hfK tb pts)
  from s1 a sK b c show ?thesis by (intro conjI)
qed

text \<open>
  C8: for every path the query of \<open>plot_performance_history\<close> selects all the stored
  records of that path, in stored order; when none matches, or when there is no history
  file, it selects none and the function returns a message, it does not raise.
\<close>

theorem query_returns_matching:
  assumes "hf \<noteq> Malformed"
  shows "\<exists>res. plot_performance_history hf path = Inr res
       \<and> plotted res = map point (test_history (stored hf) path)
       \<and> test_history (stored hf) path = filter (\<lambda>h. test_file h = path) (stored hf)
       \<and> subseq (test_history (stored hf) path) (stored hf)
       \<and> set (test_history (stored hf) path) = {h \<in> set (stored hf). test_file h = path}
       \<and> (test_history (stored hf) path = [] \<longrightarrow> snd res = None \<and> plotted res = [])
       \<and> (hf = Absent \<longrightarrow> res = (''No history data available'', None))"
proof -
  from plot_points [OF assms, of path] obtain res where
    r: "plot_performance_history hf path = Inr res"
       "plotted res = map point (test_history (stored hf) path)"
       "test_history (stored hf) path = [] \<longrightarrow> snd res = None"
       "hf = Absent \<longrightarrow> res = (''No history data available'', None)"
    by blast
  have "subseq (test_history (stored hf) path) (stored hf)"
    by (simp add: test_history_def)
  moreover have "set (test_history (stored hf) path) = {h \<in> set (stored hf). test_file h = path}"
    by (auto simp: test_history_def)
  moreover have "test_history (stored hf) path = filter (\<lambda>h. test_file h = path) (stored hf)"
    by (simp add: test_history_def)
  moreover from r(2) have "test_history (stored hf) path = [] \<longrightarrow> plotted res = []" by simp
  ultimately show ?thesis using r by blast
qed

theorem query_returns_matching_witness:
  "(\<exists>res. plot_performance_history (Stored [record_a1, record_b, record_a2]) ''a.py'' = Inr res
       \<and> plotted res = [(''2024-05-01T12:00:00'', 2, 2), (''2024-05-01T12:00:05'', 1, 1)])
   \<and> (\<exists>res. plot_performance_history (Stored [record_a1, record_b, record_a2]) ''missing.py'' =
         Inr res \<and> plotted res = [])
   \<and> (\<exists>res. plot_performance_history Absent ''missing.py'' = Inr res
         \<and> plotted res = [] \<and> res = (''No history data available'', None))"
proof -
  have h1: "Stored [record_a1, record_b, record_a2] \<noteq> Malformed" and h2: "Absent \<noteq> Malformed"
    by simp_all
  have q1: "map point (test_history (stored (Stored [record_a1, record_b, record_a2])) ''a.py'') =
      [(''2024-05-01T12:00:00'', 2, 2), (''2024-05-01T12:00:05'', 1, 1)]"
    by (simp add: test_history_def point_def record_a1_def record_a2_def record_b_def
        build_record_def sample_readings_def later_readings_def)
  have q2: "test_history (stored (Stored [record_a1, record_b, record_a2])) ''missing.py'' = []"
    by (simp add: test_history_def record_a1_def record_a2_def record_b_def build_record_def)
  from query_returns_matching [OF h1, of "''a.py''"] q1
  have a: "\<exists>res. plot_performance_history (Stored [record_a1, record_b, record_a2]) ''a.py'' = Inr res
       \<and> plotted res = [(''2024-05-01T12:00:00'', 2, 2), (''2024-05-01T12:00:05'', 1, 1)]"
    by auto
  from query_returns_matching [OF h1, of "''missing.py''"] q2
  have b: "\<exists>res. plot_performance_history (Stored [record_a1, record_b, record_a2]) ''missing.py'' =
         Inr res \<and> plotted res = []"
    by auto
  from query_returns_matching [OF h2, of "''missing.py''"]
  have c: "\<exists>res. plot_performance_history Absent ''missing.py'' = Inr res
         \<and> plotted res = [] \<and> res = (''No history data available'', None)"
    by auto
  from a b c show ?thesis by (intro conjI)
qed

section \<open>A failed request to the analysis collaborator\<close>

text \<open>
  The prompt is built before the request, outside the \<open>try\<close>. For the dictionaries the
  program passes it is always built in the comparative and the pattern mode; in the
  default mode it is built when the profiled file can be read.
\<close>

lemma build_prompt_comparative:
  "build_prompt read_file (ComparativeDict cd) ''comparative'' =
     Inr (ComparativePrompt (test_file1 cd) (profile_stats1 cd) (test_file2 cd) (profile_stats2 cd))"
  by (simp add: build_prompt_def)

lemma build_prompt_pattern:
  "build_prompt read_file (ProfileDict pd) ''pattern'' =
     Inr (PatternPrompt (test_file pd) (test_output pd) (profile_stats pd))"
  by (simp add: build_prompt_def)

lemma build_prompt_standard:
  "analysis_type \<noteq> ''comparative'' \<Longrightarrow> analysis_type \<noteq> ''pattern'' \<Longrightarrow>
   read_file (test_file pd) = Inr code \<Longrightarrow>
     build_prompt read_file (ProfileDict pd) analysis_type =
       Inr (StandardPrompt code (execution_time pd) (memory_peak pd))"
  by (simp add: build_prompt_def)

lemma analyze_with_llm_unreadable_file:
  "analysis_type \<noteq> ''comparative'' \<Longrightarrow> analysis_type \<noteq> ''pattern'' \<Longrightarrow>
   read_file (test_file pd) = Inl e \<Longrightarrow>
     analyze_with_llm read_file post (ProfileDict pd) analysis_type = Inl e"
  by (simp add: analyze_with_llm_def build_prompt_def)

text \<open>
  C9: whenever the request is sent and fails, by a network error raised by
  \<open>requests.post\<close>, by a status that is not 2xx, for which \<open>raise_for_status\<close> raises, or
  by a body without the \<open>response\<close> field (all of them instances of \<open>Exception\<close> that
  have a message, \<open>str(e)\<close>), \<open>analyze_with_llm\<close> does not raise: it returns
  \<open>Error analyzing with LLM: \<close> followed by the error's message.
\<close>

theorem analyze_with_llm_request_failure:
  assumes "build_prompt read_file profile_data analysis_type = Inr p"
    and "post p = PostRaises e \<or> post p = StatusRaises e \<or> post p = BodyRaises e"
    and "is_Exception e" and "exc_str e = Inr msg"
  shows "analyze_with_llm read_file post profile_data analysis_type =
           Inr (''Error analyzing with LLM: '' @ msg)
       \<and> sublist msg (''Error analyzing with LLM: '' @ msg)"
proof -
  from assms(2,3,4) have "(case post p of
             PostRaises e \<Rightarrow> llm_handler e
           | StatusRaises e \<Rightarrow> llm_handler e
           | BodyRaises e \<Rightarrow> llm_handler e
           | Response text \<Rightarrow> Inr text) = Inr (''Error analyzing with LLM: '' @ msg)"
    by (auto simp: llm_handler_def)
  with assms(1) have "analyze_with_llm read_file post profile_data analysis_type =
           Inr (''Error analyzing with LLM: '' @ msg)"
    by (simp add: analyze_with_llm_def)
  moreover have "sublist msg (''Error analyzing with LLM: '' @ msg)"
    by (rule sublist_append_leftI)
  ultimately show ?thesis by (rule conjI)
qed

theorem analyze_with_llm_request_failure_witness:
  "analyze_with_llm sample_read_file refused
       (ProfileDict (build_record sample_readings ''ok_fail.py''
          [''Test test_fail failed: x'', ''Test test_ok passed''])) ''standard'' =
     Inr ''Error analyzing with LLM: Connection refused''
   \<and> analyze_with_llm sample_read_file server_error
       (ComparativeDict \<lparr>test_file1 = ''ok_fail.py'', test_file2 = ''mixed.py'',
          profile_stats1 = ''3 function calls in 2.000 seconds'',
          profile_stats2 = ''2 function calls in 1.000 seconds''\<rparr>) ''comparative'' =
     Inr ''Error analyzing with LLM: 500 Server Error: Internal Server Error''"
proof -
  let ?pd = "build_record sample_readings ''ok_fail.py''
          [''Test test_fail failed: x'', ''Test test_ok passed'']"
  let ?cd = "\<lparr>test_file1 = ''ok_fail.py'', test_file2 = ''mixed.py'',
          profile_stats1 = ''3 function calls in 2.000 seconds'',
          profile_stats2 = ''2 function calls in 1.000 seconds''\<rparr>"
  have b1: "build_prompt sample_read_file (ProfileDict ?pd) ''standard'' =
      Inr (StandardPrompt ''def test_ok(): pass'' (execution_time ?pd) (memory_peak ?pd))"
    by (rule build_prompt_standard) (simp_all add: build_record_def sample_read_file_def)
  have f1: "refused (StandardPrompt ''def test_ok(): pass'' (execution_time ?pd) (memory_peak ?pd)) =
        PostRaises (PyException ''ConnectionError'' (Str ''Connection refused''))
      \<or> refused (StandardPrompt ''def test_ok(): pass'' (execution_time ?pd) (memory_peak ?pd)) =
        StatusRaises (PyException ''ConnectionError'' (Str ''Connection refused''))
      \<or> refused (StandardPrompt ''def test_ok(): pass'' (execution_time ?pd) (memory_peak ?pd)) =
        BodyRaises (PyException ''ConnectionError'' (Str ''Connection refused''))"
    by (simp add: refused_def)
  have e1: "is_Exception (PyException ''ConnectionError'' (Str ''Connection refused''))"
    and s1: "exc_str (PyException ''ConnectionError'' (Str ''Connection refused'')) =
        Inr ''Connection refused''"
    by simp_all
  have b2: "build_prompt sample_read_file (ComparativeDict ?cd) ''comparative'' =
      Inr (ComparativePrompt (test_file1 ?cd) (profile_stats1 ?cd) (test_file2 ?cd)
             (profile_stats2 ?cd))"
    by (rule build_prompt_comparative)
  have f2: "server_error (ComparativePrompt (test_file1 ?cd) (profile_stats1 ?cd) (test_file2 ?cd)
             (profile_stats2 ?cd)) =
        PostRaises (PyException ''HTTPError'' (Str ''500 Server Error: Internal Server Error''))
      \<or> server_error (ComparativePrompt (test_file1 ?cd) (profile_stats1 ?cd) (test_file2 ?cd)
             (profile_stats2 ?cd)) =
        StatusRaises (PyException ''HTTPError'' (Str ''500 Server Error: Internal Server Error''))
      \<or> server_error (ComparativePrompt (test_file1 ?cd) (profile_stats1 ?cd) (test_file2 ?cd)
             (profile_stats2 ?cd)) =
        BodyRaises (PyException ''HTTPError'' (Str ''500 Server Error: Internal Server Error''))"
    by (simp add: server_error_def)
  have e2: "is_Exception
      (PyException ''HTTPError'' (Str ''500 Server Error: Internal Server Error''))"
    and s2: "exc_str (PyException ''HTTPError'' (Str ''500 Server Error: Internal Server Error'')) =
        Inr ''500 Server Error: Internal Server Error''"
    by simp_all
  from analyze_with_llm_request_failure [where post = refused, OF b1 f1 e1 s1]
  have a: "analyze_with_llm sample_read_file refused (ProfileDict ?pd) ''standard'' =
     Inr ''Error analyzing with LLM: Connection refused''"
    by simp
  from analyze_with_llm_request_failure [where post = server_error, OF b2 f2 e2 s2]
  have b: "analyze_with_llm sample_read_file server_error (ComparativeDict ?cd) ''comparative'' =
     Inr ''Error analyzing with LLM: 500 Server Error: Internal Server Error''"
    by simp
  from a b show ?thesis by (intro conjI)
qed

end
